theory Spec2Isabelle
  imports Main "HOL-Library.Monad_Syntax"
begin

section \<open>JavaScript values\<close>

text \<open>
  The translators are JavaScript functions over parsed JSON documents. A value is
  \<open>undefined\<close>, \<open>null\<close>, a boolean, a number, a string, an array or an object.
  Numbers are modelled as integers (token counts, budgets and indices are integers in
  every wire format; fractional numbers and NaN are outside the model). An object is the
  list of its own properties in the order JavaScript enumerates them. Strings are lists
  of 8-bit characters.
\<close>

datatype json =
    JUndef
  | JNull
  | JBool bool
  | JNum int
  | JStr string
  | JArr "json list"
  | JObj "(string \<times> json) list"

text \<open>Truthiness (\<open>if (v)\<close>, \<open>!v\<close>, \<open>a || b\<close>, \<open>a && b\<close>).\<close>

fun truthy :: "json \<Rightarrow> bool" where
  "truthy JUndef = False"
| "truthy JNull = False"
| "truthy (JBool b) = b"
| "truthy (JNum n) = (n \<noteq> 0)"
| "truthy (JStr s) = (s \<noteq> [])"
| "truthy (JArr xs) = True"
| "truthy (JObj kvs) = True"

definition js_or :: "json \<Rightarrow> json \<Rightarrow> json" where
  "js_or a b = (if truthy a then a else b)"

fun typeof :: "json \<Rightarrow> string" where
  "typeof JUndef = ''undefined''"
| "typeof JNull = ''object''"
| "typeof (JBool b) = ''boolean''"
| "typeof (JNum n) = ''number''"
| "typeof (JStr s) = ''string''"
| "typeof (JArr xs) = ''object''"
| "typeof (JObj kvs) = ''object''"

fun isArray :: "json \<Rightarrow> bool" where
  "isArray (JArr xs) = True"
| "isArray v = False"

text \<open>
  Property reads. \<open>v.k\<close> throws a TypeError when \<open>v\<close> is \<open>null\<close> or \<open>undefined\<close>
  (the result \<open>None\<close>); on an object it is the own property or \<open>undefined\<close>; on every
  other value it is \<open>undefined\<close> for the property names the translators read (none of
  them is \<open>length\<close> or a member of a built-in prototype). \<open>v?.k\<close> never throws.
\<close>

definition own :: "(string \<times> json) list \<Rightarrow> string \<Rightarrow> json" where
  "own kvs k = (case map_of kvs k of Some v \<Rightarrow> v | None \<Rightarrow> JUndef)"

fun get_prop :: "json \<Rightarrow> string \<Rightarrow> json option" where
  "get_prop JUndef k = None"
| "get_prop JNull k = None"
| "get_prop (JObj kvs) k = Some (own kvs k)"
| "get_prop v k = Some JUndef"

fun opt_prop :: "json \<Rightarrow> string \<Rightarrow> json" where
  "opt_prop (JObj kvs) k = own kvs k"
| "opt_prop v k = JUndef"

text \<open>
  Property writes on an object: \<open>o.k = v\<close> replaces the value of an own property in
  place and appends a new property otherwise; \<open>delete o.k\<close> removes it.
\<close>

fun set_prop :: "(string \<times> json) list \<Rightarrow> string \<Rightarrow> json \<Rightarrow> (string \<times> json) list" where
  "set_prop [] k v = [(k, v)]"
| "set_prop ((k', v') # kvs) k v =
     (if k' = k then (k, v) # kvs else (k', v') # set_prop kvs k v)"

definition delete_prop :: "(string \<times> json) list \<Rightarrow> string \<Rightarrow> (string \<times> json) list" where
  "delete_prop kvs k = filter (\<lambda>kv. fst kv \<noteq> k) kvs"

text \<open>Conversion to a string, as template literals, \<open>+\<close> on a string and \<open>join\<close> do it.\<close>

fun show_nat :: "nat \<Rightarrow> string" where
  "show_nat n =
     (if n < 10 then [''0123456789'' ! n]
      else show_nat (n div 10) @ [''0123456789'' ! (n mod 10)])"

declare show_nat.simps [simp del]

definition show_int :: "int \<Rightarrow> string" where
  "show_int i = (if i < 0 then CHR ''-'' # show_nat (nat (- i)) else show_nat (nat i))"

fun join :: "string \<Rightarrow> string list \<Rightarrow> string" where
  "join sep [] = []"
| "join sep [x] = x"
| "join sep (x # y # ys) = x @ sep @ join sep (y # ys)"

fun to_string :: "json \<Rightarrow> string" where
  "to_string JUndef = ''undefined''"
| "to_string JNull = ''null''"
| "to_string (JBool b) = (if b then ''true'' else ''false'')"
| "to_string (JNum n) = show_int n"
| "to_string (JStr s) = s"
| "to_string (JArr xs) =
     join '','' (map (\<lambda>x. if x = JUndef \<or> x = JNull then [] else to_string x) xs)"
| "to_string (JObj kvs) = ''[object Object]''"

text \<open>
  Indexing and iteration. \<open>v[0]\<close> is the first element of an array, the first character
  of a string, the property \<open>0\<close> of an object and \<open>undefined\<close> otherwise; \<open>v?.[0]\<close>
  is \<open>undefined\<close> on \<open>null\<close> and \<open>undefined\<close>, where \<open>v[0]\<close> throws. \<open>for (x of v)\<close>
  runs over the elements of an array or the characters of a string and throws on every
  other value.
\<close>

fun opt_index0 :: "json \<Rightarrow> json" where
  "opt_index0 (JArr (x # xs)) = x"
| "opt_index0 (JStr (c # cs)) = JStr [c]"
| "opt_index0 (JObj kvs) = own kvs ''0''"
| "opt_index0 v = JUndef"

fun index0 :: "json \<Rightarrow> json option" where
  "index0 JUndef = None"
| "index0 JNull = None"
| "index0 v = Some (opt_index0 v)"

fun iterate :: "json \<Rightarrow> json list option" where
  "iterate (JArr xs) = Some xs"
| "iterate (JStr s) = Some (map (\<lambda>c. JStr [c]) s)"
| "iterate v = None"

text \<open>
  \<open>s.replace(pat, rep)\<close> with a string pattern replaces the first occurrence;
  \<open>s.toLowerCase()\<close> is modelled on ASCII letters. On a value that is no string both
  throw a TypeError.
\<close>

fun replace_first :: "string \<Rightarrow> string \<Rightarrow> string \<Rightarrow> string" where
  "replace_first pat rep [] = (if pat = [] then rep else [])"
| "replace_first pat rep (c # cs) =
     (if take (length pat) (c # cs) = pat then rep @ drop (length pat) (c # cs)
      else c # replace_first pat rep cs)"

definition lower_char :: "char \<Rightarrow> char" where
  "lower_char c =
     (if (65::nat) \<le> of_char c \<and> of_char c \<le> (90::nat)
      then char_of (of_char c + (32::nat)) else c)"

definition toLowerCase :: "json \<Rightarrow> json option" where
  "toLowerCase v = (case v of JStr s \<Rightarrow> Some (JStr (map lower_char s)) | _ \<Rightarrow> None)"

fun length_less :: "json \<Rightarrow> nat \<Rightarrow> bool" where
  "length_less (JStr s) n = (length s < n)"
| "length_less (JArr xs) n = (length xs < n)"
| "length_less v n = False"



fun str_of :: "json \<Rightarrow> string" where
  "str_of (JStr s) = s"
| "str_of v = []"

section \<open>OpenAI requests to Claude requests\<close>

text \<open>
  The request translators are pure functions of the request body. Three things they use
  are not part of the translated file and are parameters of the model: \<open>JSON.parse\<close>
  (\<open>parse\<close>, with \<open>None\<close> for a SyntaxError), the constant \<open>CLAUDE_SYSTEM_PROMPT\<close>
  (\<open>prompt\<close>) and the helper \<open>adjustMaxTokens\<close>. A translator returns \<open>None\<close> when
  it throws a TypeError.
\<close>

definition tryParseJSON :: "(string \<Rightarrow> json option) \<Rightarrow> json \<Rightarrow> json" where
  "tryParseJSON parse str =
     (case str of
        JStr s \<Rightarrow> (case parse s of Some v \<Rightarrow> v | None \<Rightarrow> str)
      | _ \<Rightarrow> str)"

text \<open>\<open>xs.filter(c => c.type === t)\<close>: reading \<open>c.type\<close> throws on \<open>null\<close> and \<open>undefined\<close>.\<close>

fun filter_type :: "json \<Rightarrow> json list \<Rightarrow> json list option" where
  "filter_type t [] = Some []"
| "filter_type t (c # cs) = do {
     c_type \<leftarrow> get_prop c ''type'';
     rest \<leftarrow> filter_type t cs;
     Some (if c_type = t then c # rest else rest)
   }"

definition array_join :: "string \<Rightarrow> json list \<Rightarrow> string" where
  "array_join sep xs =
     join sep (map (\<lambda>x. if x = JUndef \<or> x = JNull then [] else to_string x) xs)"

definition extractTextContent :: "json \<Rightarrow> json option" where
  "extractTextContent content =
     (case content of
        JStr s \<Rightarrow> Some content
      | JArr xs \<Rightarrow> do {
          texts \<leftarrow> filter_type (JStr ''text'') xs;
          Some (JStr (array_join [CHR 0x0A] (map (\<lambda>c. opt_prop c ''text'') texts)))
        }
      | _ \<Rightarrow> Some (JStr []))"

text \<open>
  \<open>url.match(/^data:([^;]+);base64,(.+)$/)\<close>: the media type is the non-empty text
  between \<open>data:\<close> and the first semicolon, which \<open>;base64,\<close> must follow, and the
  payload is the non-empty rest without a line break. On a value that is no string the
  call throws.
\<close>

definition data_uri_match :: "string \<Rightarrow> (string \<times> string) option" where
  "data_uri_match url =
     (let rest = drop 5 url;
          media_type = takeWhile (\<lambda>c. c \<noteq> CHR '';'') rest;
          tail = dropWhile (\<lambda>c. c \<noteq> CHR '';'') rest;
          payload = drop 8 tail
      in if take 5 url = ''data:'' \<and> media_type \<noteq> [] \<and> take 8 tail = '';base64,''
            \<and> payload \<noteq> [] \<and> CHR 0x0A \<notin> set payload \<and> CHR 0x0D \<notin> set payload
         then Some (media_type, payload) else None)"

definition image_url_block :: "json \<Rightarrow> json list option" where
  "image_url_block part = do {
     image_url \<leftarrow> get_prop part ''image_url'';
     url \<leftarrow> get_prop image_url ''url'';
     (case url of
        JStr u \<Rightarrow>
          (case data_uri_match u of
             Some (media_type, payload) \<Rightarrow>
               Some [JObj [(''type'', JStr ''image''),
                           (''source'', JObj [(''type'', JStr ''base64''),
                                              (''media_type'', JStr media_type),
                                              (''data'', JStr payload)])]]
           | None \<Rightarrow> Some [])
      | _ \<Rightarrow> None)
   }"

definition user_part_blocks :: "json \<Rightarrow> json list option" where
  "user_part_blocks part = do {
     part_type \<leftarrow> get_prop part ''type'';
     if part_type = JStr ''text'' \<and> truthy (opt_prop part ''text'') then
       Some [JObj [(''type'', JStr ''text''), (''text'', opt_prop part ''text'')]]
     else if part_type = JStr ''tool_result'' then
       Some [JObj ([(''type'', JStr ''tool_result''),
                    (''tool_use_id'', opt_prop part ''tool_use_id''),
                    (''content'', opt_prop part ''content'')]
                   @ (if truthy (opt_prop part ''is_error'')
                      then [(''is_error'', opt_prop part ''is_error'')] else []))]
     else if part_type = JStr ''image_url'' then image_url_block part
     else if part_type = JStr ''image'' \<and> truthy (opt_prop part ''source'') then
       Some [JObj [(''type'', JStr ''image''), (''source'', opt_prop part ''source'')]]
     else Some []
   }"

definition assistant_part_blocks :: "json \<Rightarrow> json list option" where
  "assistant_part_blocks part = do {
     part_type \<leftarrow> get_prop part ''type'';
     if part_type = JStr ''text'' \<and> truthy (opt_prop part ''text'') then
       Some [JObj [(''type'', JStr ''text''), (''text'', opt_prop part ''text'')]]
     else if part_type = JStr ''tool_use'' then
       Some [JObj [(''type'', JStr ''tool_use''),
                   (''id'', opt_prop part ''id''),
                   (''name'', opt_prop part ''name''),
                   (''input'', opt_prop part ''input'')]]
     else Some []
   }"

definition tool_call_blocks :: "(string \<Rightarrow> json option) \<Rightarrow> json \<Rightarrow> json list option" where
  "tool_call_blocks parse tc = do {
     tc_type \<leftarrow> get_prop tc ''type'';
     if tc_type = JStr ''function'' then do {
       tc_id \<leftarrow> get_prop tc ''id'';
       tc_function \<leftarrow> get_prop tc ''function'';
       name \<leftarrow> get_prop tc_function ''name'';
       arguments \<leftarrow> get_prop tc_function ''arguments'';
       Some [JObj [(''type'', JStr ''tool_use''),
                   (''id'', tc_id),
                   (''name'', name),
                   (''input'', tryParseJSON parse arguments)]]
     }
     else Some []
   }"

text \<open>A loop that pushes the blocks of each element: the first throw ends it.\<close>

fun collect :: "(json \<Rightarrow> json list option) \<Rightarrow> json list \<Rightarrow> json list option" where
  "collect f [] = Some []"
| "collect f (x # xs) = do {
     blocks \<leftarrow> f x;
     rest \<leftarrow> collect f xs;
     Some (blocks @ rest)
   }"

definition getContentBlocksFromMessage :: "(string \<Rightarrow> json option) \<Rightarrow> json \<Rightarrow> json list option" where
  "getContentBlocksFromMessage parse msg = do {
     role \<leftarrow> get_prop msg ''role'';
     content \<leftarrow> get_prop msg ''content'';
     if role = JStr ''tool'' then
       Some [JObj [(''type'', JStr ''tool_result''),
                   (''tool_use_id'', opt_prop msg ''tool_call_id''),
                   (''content'', content)]]
     else if role = JStr ''user'' then
       (case content of
          JStr s \<Rightarrow> Some (if truthy content
                           then [JObj [(''type'', JStr ''text''), (''text'', content)]] else [])
        | JArr parts \<Rightarrow> collect user_part_blocks parts
        | _ \<Rightarrow> Some [])
     else if role = JStr ''assistant'' then do {
       blocks \<leftarrow>
         (case content of
            JArr parts \<Rightarrow> collect assistant_part_blocks parts
          | _ \<Rightarrow>
            if truthy content then do {
              text \<leftarrow> (if typeof content = ''string'' then Some content
                       else extractTextContent content);
              Some (if truthy text then [JObj [(''type'', JStr ''text''), (''text'', text)]]
                    else [])
            }
            else Some []);
       tool_calls \<leftarrow> get_prop msg ''tool_calls'';
       (case tool_calls of
          JArr tcs \<Rightarrow> do {
            calls \<leftarrow> collect (tool_call_blocks parse) tcs;
            Some (blocks @ calls)
          }
        | _ \<Rightarrow> Some blocks)
     }
     else Some []
   }"

text \<open>
  The merge loop of \<open>openaiToClaude\<close>. Its variables are \<open>result.messages\<close>,
  \<open>currentRole\<close> and \<open>currentParts\<close>.
\<close>

record merge_state =
  messages :: "json list"
  currentRole :: json
  currentParts :: "json list"

definition flushCurrentMessage :: "merge_state \<Rightarrow> merge_state" where
  "flushCurrentMessage st =
     (if truthy (currentRole st) \<and> length (currentParts st) > 0
      then st\<lparr>messages := messages st @ [JObj [(''role'', currentRole st),
                                               (''content'', JArr (currentParts st))]],
              currentParts := []\<rparr>
      else st)"

definition has_type :: "string \<Rightarrow> json \<Rightarrow> bool" where
  "has_type t b = (opt_prop b ''type'' = JStr t)"

definition merge_message :: "(string \<Rightarrow> json option) \<Rightarrow> json \<Rightarrow> merge_state \<Rightarrow> merge_state option" where
  "merge_message parse msg st = do {
     role \<leftarrow> get_prop msg ''role'';
     let newRole = (if role = JStr ''user'' \<or> role = JStr ''tool''
                    then JStr ''user'' else JStr ''assistant'');
     blocks \<leftarrow> getContentBlocksFromMessage parse msg;
     let hasToolUse = list_ex (has_type ''tool_use'') blocks;
     let hasToolResult = list_ex (has_type ''tool_result'') blocks;
     if hasToolResult then do {
       let toolResultBlocks = filter (has_type ''tool_result'') blocks;
       let otherBlocks = filter (\<lambda>b. \<not> has_type ''tool_result'' b) blocks;
       let st = flushCurrentMessage st;
       let st = (if length toolResultBlocks > 0
                 then st\<lparr>messages := messages st @ [JObj [(''role'', JStr ''user''),
                                                          (''content'', JArr toolResultBlocks)]]\<rparr>
                 else st);
       Some (if length otherBlocks > 0
             then st\<lparr>currentRole := newRole, currentParts := currentParts st @ otherBlocks\<rparr>
             else st)
     }
     else do {
       let st = (if currentRole st \<noteq> newRole
                 then (flushCurrentMessage st)\<lparr>currentRole := newRole\<rparr> else st);
       let st = st\<lparr>currentParts := currentParts st @ blocks\<rparr>;
       Some (if hasToolUse then flushCurrentMessage st else st)
     }
   }"

fun merge_messages :: "(string \<Rightarrow> json option) \<Rightarrow> json list \<Rightarrow> merge_state \<Rightarrow> merge_state option" where
  "merge_messages parse [] st = Some st"
| "merge_messages parse (msg # msgs) st = do {
     st' \<leftarrow> merge_message parse msg st;
     merge_messages parse msgs st'
   }"

text \<open>
  The loop that marks the last block of the last assistant message with content, written
  over the reversed list of messages. The messages are the objects that the merge loop
  has built; on anything else the assignment is outside the model.
\<close>

fun mark_first_assistant :: "json list \<Rightarrow> json list option" where
  "mark_first_assistant [] = Some []"
| "mark_first_assistant (message # earlier) =
     (case (message, opt_prop message ''content'') of
        (JObj kvs, JArr content) \<Rightarrow>
          if opt_prop message ''role'' = JStr ''assistant'' \<and> length content > 0
             \<and> truthy (last content)
          then (case last content of
                  JObj lastBlock \<Rightarrow>
                    Some (JObj (set_prop kvs ''content''
                             (JArr (butlast content
                                    @ [JObj (set_prop lastBlock ''cache_control''
                                               (JObj [(''type'', JStr ''ephemeral'')]))])))
                          # earlier)
                | _ \<Rightarrow> None)
          else map_option ((#) message) (mark_first_assistant earlier)
      | _ \<Rightarrow> map_option ((#) message) (mark_first_assistant earlier))"

definition add_cache_control :: "json list \<Rightarrow> json list option" where
  "add_cache_control msgs = map_option rev (mark_first_assistant (rev msgs))"

fun system_parts :: "json list \<Rightarrow> json list option" where
  "system_parts [] = Some []"
| "system_parts (msg # msgs) = do {
     role \<leftarrow> get_prop msg ''role'';
     part \<leftarrow> (if role = JStr ''system'' then do {
                content \<leftarrow> get_prop msg ''content'';
                text \<leftarrow> (if typeof content = ''string'' then Some content
                         else extractTextContent content);
                Some [text]
              }
              else Some []);
     rest \<leftarrow> system_parts msgs;
     Some (part @ rest)
   }"

definition claude_tool :: "json \<Rightarrow> json option" where
  "claude_tool tool = do {
     tool_type \<leftarrow> get_prop tool ''type'';
     let toolData = (if tool_type = JStr ''function'' \<and> truthy (opt_prop tool ''function'')
                     then opt_prop tool ''function'' else tool);
     name \<leftarrow> get_prop toolData ''name'';
     description \<leftarrow> get_prop toolData ''description'';
     parameters \<leftarrow> get_prop toolData ''parameters'';
     input_schema \<leftarrow> get_prop toolData ''input_schema'';
     Some (JObj [(''name'', name),
                 (''description'', js_or description (JStr [])),
                 (''input_schema'',
                  js_or parameters
                    (js_or input_schema
                       (JObj [(''type'', JStr ''object''), (''properties'', JObj []),
                              (''required'', JArr [])])))])
   }"

fun map_opt :: "('a \<Rightarrow> 'b option) \<Rightarrow> 'a list \<Rightarrow> 'b list option" where
  "map_opt f [] = Some []"
| "map_opt f (x # xs) = do { y \<leftarrow> f x; ys \<leftarrow> map_opt f xs; Some (y # ys) }"

definition mark_last_tool :: "json list \<Rightarrow> json list" where
  "mark_last_tool tools =
     (if length tools > 0 then
        butlast tools
        @ [case last tools of
             JObj kvs \<Rightarrow> JObj (set_prop kvs ''cache_control''
                                (JObj [(''type'', JStr ''ephemeral''), (''ttl'', JStr ''1h'')]))
           | t \<Rightarrow> t]
      else tools)"

definition convertOpenAIToolChoice :: "json \<Rightarrow> json option" where
  "convertOpenAIToolChoice choice =
     (if \<not> truthy choice then Some (JObj [(''type'', JStr ''auto'')])
      else if typeof choice = ''object'' \<and> truthy (opt_prop choice ''type'') then Some choice
      else if choice = JStr ''auto'' \<or> choice = JStr ''none'' then Some (JObj [(''type'', JStr ''auto'')])
      else if choice = JStr ''required'' then Some (JObj [(''type'', JStr ''any'')])
      else if typeof choice = ''object'' \<and> truthy (opt_prop choice ''function'') then do {
        fn \<leftarrow> get_prop choice ''function'';
        name \<leftarrow> get_prop fn ''name'';
        Some (JObj [(''type'', JStr ''tool''), (''name'', name)])
      }
      else Some (JObj [(''type'', JStr ''auto'')]))"

text \<open>
  The sections of \<open>openaiToClaude\<close>: the messages and the system texts, the \<open>system\<close>
  field, the tools and the tool choice. Each of the last two adds its field to the
  result object built so far.
\<close>

definition claude_messages :: "(string \<Rightarrow> json option) \<Rightarrow> json \<Rightarrow> (json list \<times> json list) option" where
  "claude_messages parse body_messages =
     (case body_messages of
        JArr ms \<Rightarrow> do {
          systemParts \<leftarrow> system_parts ms;
          let nonSystemMessages = filter (\<lambda>m. opt_prop m ''role'' \<noteq> JStr ''system'') ms;
          st \<leftarrow> merge_messages parse nonSystemMessages
                  \<lparr>messages = [], currentRole = JUndef, currentParts = []\<rparr>;
          let st = flushCurrentMessage st;
          marked \<leftarrow> add_cache_control (messages st);
          Some (marked, systemParts)
        }
      | _ \<Rightarrow> Some ([], []))"

definition claude_system :: "json \<Rightarrow> json list \<Rightarrow> json" where
  "claude_system prompt systemParts =
     (let claudeCodePrompt = JObj [(''type'', JStr ''text''), (''text'', prompt)]
      in if length systemParts > 0 then
           JArr [claudeCodePrompt,
                 JObj [(''type'', JStr ''text''),
                       (''text'', JStr (array_join [CHR 0x0A] systemParts)),
                       (''cache_control'',
                        JObj [(''type'', JStr ''ephemeral''), (''ttl'', JStr ''1h'')])]]
         else JArr [claudeCodePrompt])"

definition claude_tools :: "json \<Rightarrow> (string \<times> json) list \<Rightarrow> (string \<times> json) list option" where
  "claude_tools body_tools result =
     (case body_tools of
        JArr ts \<Rightarrow> do {
          tools \<leftarrow> map_opt claude_tool ts;
          Some (set_prop result ''tools'' (JArr (mark_last_tool tools)))
        }
      | _ \<Rightarrow> Some result)"

definition claude_tool_choice :: "json \<Rightarrow> (string \<times> json) list \<Rightarrow> (string \<times> json) list option" where
  "claude_tool_choice tool_choice result =
     (if truthy tool_choice then do {
        converted \<leftarrow> convertOpenAIToolChoice tool_choice;
        Some (set_prop result ''tool_choice'' converted)
      }
      else Some result)"

definition openaiToClaude ::
  "(string \<Rightarrow> json option) \<Rightarrow> json \<Rightarrow> (json \<Rightarrow> json) \<Rightarrow> json \<Rightarrow> json \<Rightarrow> json \<Rightarrow> json option" where
  "openaiToClaude parse prompt adjustMaxTokens model body stream = do {
     let result = [(''model'', model), (''max_tokens'', adjustMaxTokens body), (''stream'', stream)];
     temperature \<leftarrow> get_prop body ''temperature'';
     let result = (if temperature \<noteq> JUndef then set_prop result ''temperature'' temperature
                   else result);
     body_messages \<leftarrow> get_prop body ''messages'';
     (msgs, systemParts) \<leftarrow> claude_messages parse body_messages;
     let result = set_prop result ''messages'' (JArr msgs);
     let result = set_prop result ''system'' (claude_system prompt systemParts);
     body_tools \<leftarrow> get_prop body ''tools'';
     result \<leftarrow> claude_tools body_tools result;
     tool_choice \<leftarrow> get_prop body ''tool_choice'';
     result \<leftarrow> claude_tool_choice tool_choice result;
     Some (JObj result)
   }"

section \<open>OpenAI requests to Gemini requests\<close>

subsection \<open>The converter of \<open>to-openai/openai.js\<close>\<close>

text \<open>
  This file registers its own \<open>openaiToGemini\<close> for the Gemini and Gemini-CLI targets;
  it is named \<open>openaiToGemini_openai_js\<close> here, since the other translator file
  defines a function of the same name.
\<close>

definition gemini_image_part :: "json \<Rightarrow> json list option" where
  "gemini_image_part part = do {
     image_url \<leftarrow> get_prop part ''image_url'';
     url \<leftarrow> get_prop image_url ''url'';
     (case url of
        JStr u \<Rightarrow>
          if take 5 u = ''data:'' then
            (case data_uri_match u of
               Some (media_type, payload) \<Rightarrow>
                 Some [JObj [(''inlineData'', JObj [(''mimeType'', JStr media_type),
                                                    (''data'', JStr payload)])]]
             | None \<Rightarrow> Some [])
          else Some []
      | _ \<Rightarrow> None)
   }"

definition gemini_content_part :: "json \<Rightarrow> json list option" where
  "gemini_content_part part = do {
     part_type \<leftarrow> get_prop part ''type'';
     if part_type = JStr ''text'' then Some [JObj [(''text'', opt_prop part ''text'')]]
     else if part_type = JStr ''image_url'' then gemini_image_part part
     else Some []
   }"

definition gemini_function_call :: "(string \<Rightarrow> json option) \<Rightarrow> json \<Rightarrow> json list option" where
  "gemini_function_call parse tc = do {
     tc_function \<leftarrow> get_prop tc ''function'';
     name \<leftarrow> get_prop tc_function ''name'';
     arguments \<leftarrow> get_prop tc_function ''arguments'';
     Some [JObj [(''functionCall'',
                  JObj [(''name'', name), (''args'', tryParseJSON parse arguments)])]]
   }"

definition convertOpenAIToGeminiContent :: "(string \<Rightarrow> json option) \<Rightarrow> json \<Rightarrow> json option" where
  "convertOpenAIToGeminiContent parse msg = do {
     msg_role \<leftarrow> get_prop msg ''role'';
     let role = (if msg_role = JStr ''assistant'' then JStr ''model'' else JStr ''user'');
     content \<leftarrow> get_prop msg ''content'';
     parts \<leftarrow>
       (case content of
          JStr s \<Rightarrow> Some (if truthy content then [JObj [(''text'', content)]] else [])
        | JArr ps \<Rightarrow> collect gemini_content_part ps
        | _ \<Rightarrow> Some []);
     tool_calls \<leftarrow> get_prop msg ''tool_calls'';
     parts \<leftarrow>
       (case tool_calls of
          JArr tcs \<Rightarrow> do {
            calls \<leftarrow> collect (gemini_function_call parse) tcs;
            Some (parts @ calls)
          }
        | _ \<Rightarrow> Some parts);
     Some (if length parts = 0 then JNull
           else JObj [(''role'', role), (''parts'', JArr parts)])
   }"

text \<open>
  The loop over the messages keeps the result object and the array \<open>result.contents\<close>.
\<close>

definition legacy_message ::
  "(string \<Rightarrow> json option) \<Rightarrow> json \<Rightarrow> (string \<times> json) list \<times> json list
     \<Rightarrow> ((string \<times> json) list \<times> json list) option" where
  "legacy_message parse msg acc = do {
     role \<leftarrow> get_prop msg ''role'';
     content \<leftarrow> get_prop msg ''content'';
     if role = JStr ''system'' then do {
       text \<leftarrow> (if typeof content = ''string'' then Some content else extractTextContent content);
       Some (set_prop (fst acc) ''systemInstruction''
               (JObj [(''parts'', JArr [JObj [(''text'', text)]])]),
             snd acc)
     }
     else if role = JStr ''tool'' then
       Some (fst acc,
             snd acc @ [JObj [(''role'', JStr ''function''),
                              (''parts'',
                               JArr [JObj [(''functionResponse'',
                                           JObj [(''name'', opt_prop msg ''tool_call_id''),
                                                 (''response'', tryParseJSON parse content)])]])]])
     else do {
       converted \<leftarrow> convertOpenAIToGeminiContent parse msg;
       Some (fst acc, if truthy converted then snd acc @ [converted] else snd acc)
     }
   }"

fun legacy_messages ::
  "(string \<Rightarrow> json option) \<Rightarrow> json list \<Rightarrow> (string \<times> json) list \<times> json list
     \<Rightarrow> ((string \<times> json) list \<times> json list) option" where
  "legacy_messages parse [] acc = Some acc"
| "legacy_messages parse (msg # msgs) acc = do {
     acc' \<leftarrow> legacy_message parse msg acc;
     legacy_messages parse msgs acc'
   }"

definition legacy_valid_tool :: "json \<Rightarrow> bool" where
  "legacy_valid_tool tool =
     (truthy tool \<and> truthy (opt_prop tool ''function'')
      \<and> truthy (opt_prop (opt_prop tool ''function'') ''name''))"

definition legacy_declaration :: "json \<Rightarrow> json" where
  "legacy_declaration tool =
     (let fn = opt_prop tool ''function''
      in JObj [(''name'', opt_prop fn ''name''),
               (''description'', js_or (opt_prop fn ''description'') (JStr [])),
               (''parameters'',
                js_or (opt_prop fn ''parameters'')
                  (JObj [(''type'', JStr ''object''), (''properties'', JObj [])]))])"

definition openaiToGemini_openai_js ::
  "(string \<Rightarrow> json option) \<Rightarrow> json \<Rightarrow> json \<Rightarrow> json \<Rightarrow> json option" where
  "openaiToGemini_openai_js parse model body stream = do {
     max_tokens \<leftarrow> get_prop body ''max_tokens'';
     let generationConfig = (if truthy max_tokens then [(''maxOutputTokens'', max_tokens)] else []);
     temperature \<leftarrow> get_prop body ''temperature'';
     let generationConfig =
       (if temperature \<noteq> JUndef then set_prop generationConfig ''temperature'' temperature
        else generationConfig);
     top_p \<leftarrow> get_prop body ''top_p'';
     let generationConfig =
       (if top_p \<noteq> JUndef then set_prop generationConfig ''topP'' top_p else generationConfig);
     let result = [(''contents'', JArr []), (''generationConfig'', JObj generationConfig)];
     body_messages \<leftarrow> get_prop body ''messages'';
     (result, contents) \<leftarrow>
       (case body_messages of
          JArr ms \<Rightarrow> legacy_messages parse ms (result, [])
        | _ \<Rightarrow> Some (result, []));
     let result = set_prop result ''contents'' (JArr contents);
     body_tools \<leftarrow> get_prop body ''tools'';
     let result =
       (case body_tools of
          JArr ts \<Rightarrow>
            (let validTools = filter legacy_valid_tool ts
             in if length validTools > 0 then
                  set_prop result ''tools''
                    (JArr [JObj [(''functionDeclarations'',
                                  JArr (map legacy_declaration validTools))]])
                else result)
        | _ \<Rightarrow> result);
     Some (JObj result)
   }"

subsection \<open>The converters built on \<open>openaiToGeminiBase\<close>\<close>

text \<open>
  A request body is a parsed JSON document. The request that these converters return can
  hold values that no JSON document holds: \<open>tcID2Name\<close>, \<open>toolResponses\<close> and
  \<open>budgetMap\<close> are plain objects used as dictionaries, and reading a key that names a
  member of \<open>Object.prototype\<close> gives that member, a built-in function (for
  \<open>__proto__\<close> the prototype itself). A result is therefore a value of the wider type
  \<open>jsval\<close>; \<open>of_json\<close> embeds the values taken from the body. A built-in function is
  named by its path from the global object.
\<close>

datatype builtin = ObjectPrototype | BuiltinFunction string

datatype jsval =
    VUndef
  | VNull
  | VBool bool
  | VNum int
  | VStr string
  | VArr "jsval list"
  | VObj "(string \<times> jsval) list"
  | VBuiltin builtin

primrec of_json :: "json \<Rightarrow> jsval" where
  "of_json JUndef = VUndef"
| "of_json JNull = VNull"
| "of_json (JBool b) = VBool b"
| "of_json (JNum n) = VNum n"
| "of_json (JStr s) = VStr s"
| "of_json (JArr xs) = VArr (map of_json xs)"
| "of_json (JObj kvs) = VObj (map (map_prod id of_json) kvs)"

fun truthy_v :: "jsval \<Rightarrow> bool" where
  "truthy_v VUndef = False"
| "truthy_v VNull = False"
| "truthy_v (VBool b) = b"
| "truthy_v (VNum n) = (n \<noteq> 0)"
| "truthy_v (VStr s) = (s \<noteq> [])"
| "truthy_v (VArr xs) = True"
| "truthy_v (VObj kvs) = True"
| "truthy_v (VBuiltin b) = True"

definition js_or_v :: "jsval \<Rightarrow> jsval \<Rightarrow> jsval" where
  "js_or_v a b = (if truthy_v a then a else b)"

fun typeof_v :: "jsval \<Rightarrow> string" where
  "typeof_v VUndef = ''undefined''"
| "typeof_v VNull = ''object''"
| "typeof_v (VBool b) = ''boolean''"
| "typeof_v (VNum n) = ''number''"
| "typeof_v (VStr s) = ''string''"
| "typeof_v (VArr xs) = ''object''"
| "typeof_v (VObj kvs) = ''object''"
| "typeof_v (VBuiltin ObjectPrototype) = ''object''"
| "typeof_v (VBuiltin (BuiltinFunction f)) = ''function''"

text \<open>
  Property reads and writes on the objects that the converters build. The names read are
  \<open>generationConfig\<close>, \<open>tools\<close>, \<open>functionDeclarations\<close>, \<open>parameters\<close>,
  \<open>contents\<close>, \<open>systemInstruction\<close> and \<open>safetySettings\<close>: on a value that is no
  object built here they are \<open>undefined\<close>, and on \<open>null\<close> and \<open>undefined\<close> the read
  \<open>v.k\<close> throws (\<open>None\<close>) while \<open>v?.k\<close> is \<open>undefined\<close>.
\<close>

definition own_v :: "(string \<times> jsval) list \<Rightarrow> string \<Rightarrow> jsval" where
  "own_v kvs k = (case map_of kvs k of Some v \<Rightarrow> v | None \<Rightarrow> VUndef)"

fun opt_field :: "jsval \<Rightarrow> string \<Rightarrow> jsval" where
  "opt_field (VObj kvs) k = own_v kvs k"
| "opt_field v k = VUndef"

fun get_field :: "jsval \<Rightarrow> string \<Rightarrow> jsval option" where
  "get_field VUndef k = None"
| "get_field VNull k = None"
| "get_field v k = Some (opt_field v k)"

fun set_field :: "(string \<times> jsval) list \<Rightarrow> string \<Rightarrow> jsval \<Rightarrow> (string \<times> jsval) list" where
  "set_field [] k v = [(k, v)]"
| "set_field ((k', v') # kvs) k v =
     (if k' = k then (k, v) # kvs else (k', v') # set_field kvs k v)"

definition delete_field :: "(string \<times> jsval) list \<Rightarrow> string \<Rightarrow> (string \<times> jsval) list" where
  "delete_field kvs k = filter (\<lambda>kv. fst kv \<noteq> k) kvs"

fun iterate_v :: "jsval \<Rightarrow> jsval list option" where
  "iterate_v (VArr xs) = Some xs"
| "iterate_v (VStr s) = Some (map (\<lambda>c. VStr [c]) s)"
| "iterate_v v = None"

text \<open>
  The constants and helpers that this file imports from \<open>geminiHelper.js\<close> and
  \<open>defaultThinkingSignature.js\<close> are not part of the translated files; they are the
  fields of a parameter. The three identifier generators are random: the identifiers they
  return in a call are fields as well. The helpers \<open>extractTextContent\<close> and
  \<open>tryParseJSON\<close> of \<open>geminiHelper.js\<close> carry the suffix \<open>_h\<close>.
\<close>

record gemini_helpers =
  DEFAULT_THINKING_GEMINI_SIGNATURE :: jsval
  DEFAULT_SAFETY_SETTINGS :: jsval
  convertOpenAIContentToParts :: "json \<Rightarrow> jsval list"
  extractTextContent_h :: "json \<Rightarrow> jsval"
  tryParseJSON_h :: "jsval \<Rightarrow> jsval"
  cleanJSONSchemaForAntigravity :: "jsval \<Rightarrow> jsval"
  generateRequestId :: jsval
  generateSessionId :: jsval
  generateProjectId :: jsval

text \<open>
  The key of a dictionary access \<open>d[key]\<close> is converted to a string. A primitive converts
  as in a template literal (a number to its decimal digits: the numbers with 22 digits
  and more, which JavaScript writes with an exponent, are outside the model, as
  fractional numbers are). An array converts by joining the conversions of its elements
  with commas, \<open>null\<close> and \<open>undefined\<close> giving the empty string. An object parsed from
  JSON converts through \<open>Object.prototype.toString\<close> to \<open>[object Object]\<close>, unless it
  has an own property \<open>toString\<close>: that value is no function, and neither \<open>valueOf\<close>
  gives a primitive, so the conversion throws a TypeError (\<open>None\<close>).
\<close>

definition has_own :: "(string \<times> json) list \<Rightarrow> string \<Rightarrow> bool" where
  "has_own kvs k = (map_of kvs k \<noteq> None)"

fun to_key :: "json \<Rightarrow> string option"
  and to_keys :: "json list \<Rightarrow> string list option" where
  "to_key JUndef = Some ''undefined''"
| "to_key JNull = Some ''null''"
| "to_key (JBool b) = Some (if b then ''true'' else ''false'')"
| "to_key (JNum n) = Some (show_int n)"
| "to_key (JStr s) = Some s"
| "to_key (JArr xs) = map_option (join '','') (to_keys xs)"
| "to_key (JObj kvs) = (if has_own kvs ''toString'' then None else Some ''[object Object]'')"
| "to_keys [] = Some []"
| "to_keys (x # xs) = do {
     s \<leftarrow> (if x = JUndef \<or> x = JNull then Some [] else to_key x);
     ss \<leftarrow> to_keys xs;
     Some (s # ss)
   }"

text \<open>
  A dictionary is an ordinary object: its own properties and its prototype. The prototype
  of an object literal is \<open>Object.prototype\<close>; an assignment to the key \<open>__proto__\<close>
  that reaches the accessor of \<open>Object.prototype\<close> replaces it by the assigned object,
  array or \<open>null\<close> and ignores every other value.
\<close>

datatype proto =
    ProtoBuiltin
  | ProtoNull
  | ProtoObject "(string \<times> json) list"
  | ProtoArray "json list"

record dict =
  own_props :: "(string \<times> json) list"
  prototype :: proto

definition empty_dict :: dict where
  "empty_dict = \<lparr>own_props = [], prototype = ProtoBuiltin\<rparr>"

text \<open>
  The string-keyed members of \<open>Object.prototype\<close>, and those of \<open>Array.prototype\<close>
  (ECMAScript 2023) other than \<open>constructor\<close> and \<open>length\<close>.
\<close>

definition object_prototype_names :: "string list" where
  "object_prototype_names =
     [''constructor'', ''__proto__'', ''hasOwnProperty'', ''isPrototypeOf'',
      ''propertyIsEnumerable'', ''toLocaleString'', ''toString'', ''valueOf'',
      ''__defineGetter__'', ''__defineSetter__'', ''__lookupGetter__'', ''__lookupSetter__'']"

definition array_prototype_names :: "string list" where
  "array_prototype_names =
     [''at'', ''concat'', ''copyWithin'', ''entries'', ''every'', ''fill'', ''filter'',
      ''find'', ''findIndex'', ''findLast'', ''findLastIndex'', ''flat'', ''flatMap'',
      ''forEach'', ''includes'', ''indexOf'', ''join'', ''keys'', ''lastIndexOf'', ''map'',
      ''pop'', ''push'', ''reduce'', ''reduceRight'', ''reverse'', ''shift'', ''slice'',
      ''some'', ''sort'', ''splice'', ''toLocaleString'', ''toReversed'', ''toSorted'',
      ''toSpliced'', ''toString'', ''unshift'', ''values'', ''with'']"

text \<open>
  The value of the prototype, which the getter of \<open>__proto__\<close> returns for the
  dictionary that is read.
\<close>

definition proto_value :: "proto \<Rightarrow> jsval" where
  "proto_value p =
     (case p of
        ProtoBuiltin \<Rightarrow> VBuiltin ObjectPrototype
      | ProtoNull \<Rightarrow> VNull
      | ProtoObject kvs \<Rightarrow> of_json (JObj kvs)
      | ProtoArray xs \<Rightarrow> of_json (JArr xs))"

definition object_prototype_member :: "proto \<Rightarrow> string \<Rightarrow> jsval" where
  "object_prototype_member p k =
     (if k = ''__proto__'' then proto_value p
      else if k = ''constructor'' then VBuiltin (BuiltinFunction ''Object'')
      else if k \<in> set object_prototype_names
      then VBuiltin (BuiltinFunction (''Object.prototype.'' @ k))
      else VUndef)"

definition array_prototype_member :: "proto \<Rightarrow> string \<Rightarrow> jsval" where
  "array_prototype_member p k =
     (if k = ''constructor'' then VBuiltin (BuiltinFunction ''Array'')
      else if k \<in> set array_prototype_names
      then VBuiltin (BuiltinFunction (''Array.prototype.'' @ k))
      else object_prototype_member p k)"

text \<open>The own properties of an array: its elements under their indices, and \<open>length\<close>.\<close>

definition array_own :: "json list \<Rightarrow> string \<Rightarrow> json option" where
  "array_own xs k =
     (if k = ''length'' then Some (JNum (int (length xs)))
      else map_of (zip (map show_nat [0..<length xs]) xs) k)"

text \<open>
  A read that finds no own property goes up the prototype chain of the dictionary whose
  prototype is \<open>p\<close>: a prototype taken from the body is a parsed object, followed by
  \<open>Object.prototype\<close>, or a parsed array, followed by \<open>Array.prototype\<close> and
  \<open>Object.prototype\<close>.
\<close>

definition inherited :: "proto \<Rightarrow> string \<Rightarrow> jsval" where
  "inherited p k =
     (case p of
        ProtoBuiltin \<Rightarrow> object_prototype_member p k
      | ProtoNull \<Rightarrow> VUndef
      | ProtoObject kvs \<Rightarrow>
          if has_own kvs k then of_json (own kvs k) else object_prototype_member p k
      | ProtoArray xs \<Rightarrow>
          (case array_own xs k of
             Some v \<Rightarrow> of_json v
           | None \<Rightarrow> array_prototype_member p k))"

definition dict_lookup :: "dict \<Rightarrow> string \<Rightarrow> jsval" where
  "dict_lookup d k =
     (if has_own (own_props d) k then of_json (own (own_props d) k)
      else inherited (prototype d) k)"

definition dict_get :: "dict \<Rightarrow> json \<Rightarrow> jsval option" where
  "dict_get d key = map_option (dict_lookup d) (to_key key)"

text \<open>
  An assignment \<open>d[key] = v\<close>. It replaces an own property. Otherwise the chain is
  searched: every inherited property is a writable data property, for which the
  assignment creates an own property, but \<open>__proto__\<close> of \<open>Object.prototype\<close>, whose
  setter is called. The setter is reached unless the chain ends in \<open>null\<close> or goes
  through a parsed object with an own property \<open>__proto__\<close>.
\<close>

definition reaches_setter :: "proto \<Rightarrow> bool" where
  "reaches_setter p =
     (case p of
        ProtoBuiltin \<Rightarrow> True
      | ProtoNull \<Rightarrow> False
      | ProtoObject kvs \<Rightarrow> \<not> has_own kvs ''__proto__''
      | ProtoArray xs \<Rightarrow> True)"

definition dict_assign :: "dict \<Rightarrow> string \<Rightarrow> json \<Rightarrow> dict" where
  "dict_assign d k v =
     (if k = ''__proto__'' \<and> \<not> has_own (own_props d) k \<and> reaches_setter (prototype d) then
        (case v of
           JObj kvs \<Rightarrow> d\<lparr>prototype := ProtoObject kvs\<rparr>
         | JArr xs \<Rightarrow> d\<lparr>prototype := ProtoArray xs\<rparr>
         | JNull \<Rightarrow> d\<lparr>prototype := ProtoNull\<rparr>
         | _ \<Rightarrow> d)
      else d\<lparr>own_props := set_prop (own_props d) k v\<rparr>)"

definition dict_set :: "dict \<Rightarrow> json \<Rightarrow> json \<Rightarrow> dict option" where
  "dict_set d key v = map_option (\<lambda>k. dict_assign d k v) (to_key key)"

definition name_of_call :: "json \<Rightarrow> dict \<Rightarrow> dict option" where
  "name_of_call tc tcID2Name = do {
     tc_type \<leftarrow> get_prop tc ''type'';
     tc_id \<leftarrow> get_prop tc ''id'';
     tc_function \<leftarrow> get_prop tc ''function'';
     if tc_type = JStr ''function'' \<and> truthy tc_id \<and> truthy (opt_prop tc_function ''name'')
     then dict_set tcID2Name tc_id (opt_prop tc_function ''name'')
     else Some tcID2Name
   }"

fun names_of_calls :: "json list \<Rightarrow> dict \<Rightarrow> dict option" where
  "names_of_calls [] tcID2Name = Some tcID2Name"
| "names_of_calls (tc # tcs) tcID2Name = do {
     tcID2Name' \<leftarrow> name_of_call tc tcID2Name;
     names_of_calls tcs tcID2Name'
   }"

fun build_tcID2Name :: "json list \<Rightarrow> dict \<Rightarrow> dict option" where
  "build_tcID2Name [] tcID2Name = Some tcID2Name"
| "build_tcID2Name (msg # msgs) tcID2Name = do {
     role \<leftarrow> get_prop msg ''role'';
     tcID2Name' \<leftarrow>
       (if role = JStr ''assistant'' \<and> truthy (opt_prop msg ''tool_calls'') then do {
          tcs \<leftarrow> iterate (opt_prop msg ''tool_calls'');
          names_of_calls tcs tcID2Name
        }
        else Some tcID2Name);
     build_tcID2Name msgs tcID2Name'
   }"

fun build_toolResponses :: "json list \<Rightarrow> dict \<Rightarrow> dict option" where
  "build_toolResponses [] toolResponses = Some toolResponses"
| "build_toolResponses (msg # msgs) toolResponses = do {
     role \<leftarrow> get_prop msg ''role'';
     toolResponses' \<leftarrow>
       (if role = JStr ''tool'' \<and> truthy (opt_prop msg ''tool_call_id'')
        then dict_set toolResponses (opt_prop msg ''tool_call_id'') (opt_prop msg ''content'')
        else Some toolResponses);
     build_toolResponses msgs toolResponses'
   }"

text \<open>\<open>s.split("-")\<close>, and the name read from an id of the form name-timestamp-index.\<close>

fun split_on :: "char \<Rightarrow> string \<Rightarrow> string list" where
  "split_on sep [] = [[]]"
| "split_on sep (c # cs) =
     (if c = sep then [] # split_on sep cs
      else (case split_on sep cs of
              w # ws \<Rightarrow> (c # w) # ws
            | [] \<Rightarrow> [[c]]))"

definition name_from_id :: "json \<Rightarrow> json option" where
  "name_from_id fid =
     (case fid of
        JStr s \<Rightarrow>
          (let idParts = split_on CHR ''-'' s
           in if length idParts > 2
              then Some (JStr (join ''-'' (take (length idParts - 2) idParts)))
              else Some fid)
      | _ \<Rightarrow> None)"

text \<open>The body of the loop over \<open>toolCallIds\<close>: the function response of one call id.\<close>

definition wrap_response :: "jsval \<Rightarrow> jsval \<Rightarrow> jsval" where
  "wrap_response resp parsedResp =
     (if parsedResp = VNull then VObj [(''result'', resp)]
      else if typeof_v parsedResp \<noteq> ''object'' then VObj [(''result'', parsedResp)]
      else parsedResp)"

definition function_response :: "gemini_helpers \<Rightarrow> dict \<Rightarrow> dict \<Rightarrow> json \<Rightarrow> jsval option" where
  "function_response h tcID2Name toolResponses fid = do {
     recorded_name \<leftarrow> dict_get tcID2Name fid;
     name \<leftarrow> (if \<not> truthy_v recorded_name then map_option of_json (name_from_id fid)
              else Some recorded_name);
     response \<leftarrow> dict_get toolResponses fid;
     let resp = js_or_v response (VStr ''{}'');
     let parsedResp = wrap_response resp (tryParseJSON_h h resp);
     Some (VObj [(''functionResponse'',
                  VObj [(''id'', of_json fid),
                        (''name'', name),
                        (''response'', VObj [(''result'', parsedResp)])])])
   }"

definition function_call_part_of ::
  "gemini_helpers \<Rightarrow> json \<Rightarrow> (jsval list \<times> json list) option" where
  "function_call_part_of h tc = do {
     tc_type \<leftarrow> get_prop tc ''type'';
     if tc_type \<noteq> JStr ''function'' then Some ([], [])
     else do {
       tc_function \<leftarrow> get_prop tc ''function'';
       let args = tryParseJSON_h h
                    (of_json (js_or (opt_prop tc_function ''arguments'') (JStr ''{}'')));
       tc_id \<leftarrow> get_prop tc ''id'';
       name \<leftarrow> get_prop tc_function ''name'';
       Some ([VObj [(''thoughtSignature'', DEFAULT_THINKING_GEMINI_SIGNATURE h),
                    (''functionCall'',
                     VObj [(''id'', of_json tc_id), (''name'', of_json name), (''args'', args)])]],
             [tc_id])
     }
   }"

fun function_call_parts ::
  "gemini_helpers \<Rightarrow> json list \<Rightarrow> (jsval list \<times> json list) option" where
  "function_call_parts h [] = Some ([], [])"
| "function_call_parts h (tc # tcs) = do {
     (parts, ids) \<leftarrow> function_call_part_of h tc;
     (parts', ids') \<leftarrow> function_call_parts h tcs;
     Some (parts @ parts', ids @ ids')
   }"

definition assistant_entries ::
  "gemini_helpers \<Rightarrow> dict \<Rightarrow> dict \<Rightarrow> json \<Rightarrow> jsval list option" where
  "assistant_entries h tcID2Name toolResponses msg = do {
     content \<leftarrow> get_prop msg ''content'';
     let parts =
       (if truthy content then
          (let text = (if typeof content = ''string'' then of_json content
                       else extractTextContent_h h content)
           in if truthy_v text then [VObj [(''text'', text)]] else [])
        else []);
     tool_calls \<leftarrow> get_prop msg ''tool_calls'';
     (case tool_calls of
        JArr tcs \<Rightarrow> do {
          (call_parts, toolCallIds) \<leftarrow> function_call_parts h tcs;
          let parts = parts @ call_parts;
          let entries = (if length parts > 0
                         then [VObj [(''role'', VStr ''model''), (''parts'', VArr parts)]]
                         else []);
          toolParts \<leftarrow> map_opt (function_response h tcID2Name toolResponses) toolCallIds;
          Some (if length toolParts > 0
                then entries @ [VObj [(''role'', VStr ''user''), (''parts'', VArr toolParts)]]
                else entries)
        }
      | _ \<Rightarrow>
          Some (if length parts > 0
                then [VObj [(''role'', VStr ''model''), (''parts'', VArr parts)]]
                else []))
   }"

text \<open>
  One iteration of the loop that converts the messages; \<open>n\<close> is
  \<open>body.messages.length\<close>. The loop keeps \<open>result.systemInstruction\<close> (\<open>undefined\<close>
  until it is assigned) and \<open>result.contents\<close>.
\<close>

definition convert_message ::
  "gemini_helpers \<Rightarrow> dict \<Rightarrow> dict \<Rightarrow> nat \<Rightarrow> json
     \<Rightarrow> jsval \<times> jsval list \<Rightarrow> (jsval \<times> jsval list) option" where
  "convert_message h tcID2Name toolResponses n msg acc = do {
     role \<leftarrow> get_prop msg ''role'';
     content \<leftarrow> get_prop msg ''content'';
     if role = JStr ''system'' \<and> n > 1 then
       Some (VObj [(''role'', VStr ''user''),
                   (''parts'',
                    VArr [VObj [(''text'',
                                 if typeof content = ''string'' then of_json content
                                 else extractTextContent_h h content)]])],
             snd acc)
     else if role = JStr ''user'' \<or> (role = JStr ''system'' \<and> n = 1) then
       (let parts = convertOpenAIContentToParts h content
        in Some (fst acc,
                 if length parts > 0
                 then snd acc @ [VObj [(''role'', VStr ''user''), (''parts'', VArr parts)]]
                 else snd acc))
     else if role = JStr ''assistant'' then do {
       entries \<leftarrow> assistant_entries h tcID2Name toolResponses msg;
       Some (fst acc, snd acc @ entries)
     }
     else Some acc
   }"

fun convert_messages ::
  "gemini_helpers \<Rightarrow> dict \<Rightarrow> dict \<Rightarrow> nat \<Rightarrow> json list
     \<Rightarrow> jsval \<times> jsval list \<Rightarrow> (jsval \<times> jsval list) option" where
  "convert_messages h tcID2Name toolResponses n [] acc = Some acc"
| "convert_messages h tcID2Name toolResponses n (msg # msgs) acc = do {
     acc' \<leftarrow> convert_message h tcID2Name toolResponses n msg acc;
     convert_messages h tcID2Name toolResponses n msgs acc'
   }"

definition function_declaration :: "json \<Rightarrow> json list option" where
  "function_declaration t = do {
     t_type \<leftarrow> get_prop t ''type'';
     fn \<leftarrow> get_prop t ''function'';
     Some (if t_type = JStr ''function'' \<and> truthy fn then
             [JObj [(''name'', opt_prop fn ''name''),
                    (''description'', js_or (opt_prop fn ''description'') (JStr [])),
                    (''parameters'',
                     js_or (opt_prop fn ''parameters'')
                       (JObj [(''type'', JStr ''object''), (''properties'', JObj [])]))]]
           else [])
   }"

definition base_generationConfig :: "json \<Rightarrow> (string \<times> json) list option" where
  "base_generationConfig body = do {
     temperature \<leftarrow> get_prop body ''temperature'';
     let generationConfig = (if temperature \<noteq> JUndef then [(''temperature'', temperature)] else []);
     top_p \<leftarrow> get_prop body ''top_p'';
     let generationConfig =
       (if top_p \<noteq> JUndef then set_prop generationConfig ''topP'' top_p else generationConfig);
     top_k \<leftarrow> get_prop body ''top_k'';
     let generationConfig =
       (if top_k \<noteq> JUndef then set_prop generationConfig ''topK'' top_k else generationConfig);
     max_tokens \<leftarrow> get_prop body ''max_tokens'';
     Some (if max_tokens \<noteq> JUndef then set_prop generationConfig ''maxOutputTokens'' max_tokens
           else generationConfig)
   }"

definition base_contents :: "gemini_helpers \<Rightarrow> json \<Rightarrow> (jsval \<times> jsval list) option" where
  "base_contents h body_messages =
     (case body_messages of
        JArr ms \<Rightarrow> do {
          tcID2Name \<leftarrow> build_tcID2Name ms empty_dict;
          toolResponses \<leftarrow> build_toolResponses ms empty_dict;
          convert_messages h tcID2Name toolResponses (length ms) ms (VUndef, [])
        }
      | _ \<Rightarrow> Some (VUndef, []))"

definition base_tools :: "json \<Rightarrow> json option" where
  "base_tools body_tools =
     (case body_tools of
        JArr ts \<Rightarrow>
          if length ts > 0 then do {
            functionDeclarations \<leftarrow> collect function_declaration ts;
            Some (if length functionDeclarations > 0
                  then JArr [JObj [(''functionDeclarations'', JArr functionDeclarations)]]
                  else JUndef)
          }
          else Some JUndef
      | _ \<Rightarrow> Some JUndef)"

text \<open>
  The result object: \<open>systemInstruction\<close> and \<open>tools\<close> are properties only once they
  are assigned.
\<close>

definition openaiToGeminiBase :: "gemini_helpers \<Rightarrow> json \<Rightarrow> json \<Rightarrow> json \<Rightarrow> jsval option" where
  "openaiToGeminiBase h model body stream = do {
     generationConfig \<leftarrow> base_generationConfig body;
     body_messages \<leftarrow> get_prop body ''messages'';
     (systemInstruction, contents) \<leftarrow> base_contents h body_messages;
     body_tools \<leftarrow> get_prop body ''tools'';
     tools \<leftarrow> base_tools body_tools;
     Some (VObj ([(''model'', of_json model),
                  (''contents'', VArr contents),
                  (''generationConfig'', of_json (JObj generationConfig)),
                  (''safetySettings'', DEFAULT_SAFETY_SETTINGS h)]
                 @ (if systemInstruction \<noteq> VUndef
                    then [(''systemInstruction'', systemInstruction)] else [])
                 @ (if tools \<noteq> JUndef then [(''tools'', of_json tools)] else [])))
   }"

definition openaiToGemini :: "gemini_helpers \<Rightarrow> json \<Rightarrow> json \<Rightarrow> json \<Rightarrow> jsval option" where
  "openaiToGemini h model body stream = openaiToGeminiBase h model body stream"

text \<open>\<open>s.includes(t)\<close>.\<close>

fun includes_str :: "string \<Rightarrow> string \<Rightarrow> bool" where
  "includes_str [] t = (t = [])"
| "includes_str (c # cs) t = (take (length t) (c # cs) = t \<or> includes_str cs t)"

definition budgetMap :: dict where
  "budgetMap =
     \<lparr>own_props = [(''low'', JNum 1024), (''medium'', JNum 8192), (''high'', JNum 32768)],
      prototype = ProtoBuiltin\<rparr>"

definition thinking_config :: "json \<Rightarrow> (string \<times> jsval) list \<Rightarrow> (string \<times> jsval) list option" where
  "thinking_config body generationConfig = do {
     reasoning_effort \<leftarrow> get_prop body ''reasoning_effort'';
     generationConfig \<leftarrow>
       (if truthy reasoning_effort then do {
          mapped \<leftarrow> dict_get budgetMap reasoning_effort;
          let budget = js_or_v mapped (VNum 8192);
          Some (set_field generationConfig ''thinkingConfig''
                  (VObj [(''thinkingBudget'', budget), (''include_thoughts'', VBool True)]))
        }
        else Some generationConfig);
     thinking \<leftarrow> get_prop body ''thinking'';
     Some (if opt_prop thinking ''type'' = JStr ''enabled''
              \<and> truthy (opt_prop thinking ''budget_tokens'')
           then set_field generationConfig ''thinkingConfig''
                  (VObj [(''thinkingBudget'', of_json (opt_prop thinking ''budget_tokens'')),
                         (''include_thoughts'', VBool True)])
           else generationConfig)
   }"

definition clean_declaration :: "gemini_helpers \<Rightarrow> bool \<Rightarrow> jsval \<Rightarrow> jsval option" where
  "clean_declaration h isClaude fn = do {
     parameters \<leftarrow> get_field fn ''parameters'';
     if truthy_v parameters then
       (let cleanedSchema = cleanJSONSchemaForAntigravity h parameters
        in case fn of
             VObj kvs \<Rightarrow>
               Some (VObj (if isClaude then set_field kvs ''parameters'' cleanedSchema
                           else delete_field (set_field kvs ''parametersJsonSchema'' cleanedSchema)
                                  ''parameters''))
           | _ \<Rightarrow> None)
     else Some fn
   }"

definition clean_tools :: "gemini_helpers \<Rightarrow> bool \<Rightarrow> jsval \<Rightarrow> jsval option" where
  "clean_tools h isClaude tools =
     (case tools of
        VArr (VObj first # others) \<Rightarrow>
          if truthy_v (own_v first ''functionDeclarations'') then do {
            declarations \<leftarrow> iterate_v (own_v first ''functionDeclarations'');
            cleaned \<leftarrow> map_opt (clean_declaration h isClaude) declarations;
            Some (VArr (VObj (set_field first ''functionDeclarations'' (VArr cleaned)) # others))
          }
          else Some tools
      | _ \<Rightarrow> Some tools)"

definition openaiToGeminiCLI :: "gemini_helpers \<Rightarrow> json \<Rightarrow> json \<Rightarrow> json \<Rightarrow> jsval option" where
  "openaiToGeminiCLI h model body stream = do {
     gemini \<leftarrow> openaiToGeminiBase h model body stream;
     lowered \<leftarrow> toLowerCase model;
     let isClaude = includes_str (str_of lowered) ''claude'';
     generationConfig \<leftarrow> thinking_config body
                           (case opt_field gemini ''generationConfig'' of VObj kvs \<Rightarrow> kvs | _ \<Rightarrow> []);
     tools \<leftarrow> clean_tools h isClaude (opt_field gemini ''tools'');
     (case gemini of
        VObj kvs \<Rightarrow>
          Some (VObj (let kvs = set_field kvs ''generationConfig'' (VObj generationConfig)
                      in if tools \<noteq> VUndef then set_field kvs ''tools'' tools else kvs))
      | _ \<Rightarrow> None)
   }"

definition wrapInCloudCodeEnvelope :: "gemini_helpers \<Rightarrow> json \<Rightarrow> jsval \<Rightarrow> json \<Rightarrow> jsval option" where
  "wrapInCloudCodeEnvelope h model geminiCLI credentials = do {
     let projectId = js_or_v (of_json (opt_prop credentials ''projectId'')) (generateProjectId h);
     contents \<leftarrow> get_field geminiCLI ''contents'';
     Some (VObj [(''project'', projectId),
                 (''model'', of_json model),
                 (''userAgent'', VStr ''gemini-cli''),
                 (''requestId'', generateRequestId h),
                 (''request'',
                  VObj [(''sessionId'', generateSessionId h),
                        (''contents'', contents),
                        (''systemInstruction'', opt_field geminiCLI ''systemInstruction''),
                        (''generationConfig'', opt_field geminiCLI ''generationConfig''),
                        (''safetySettings'', opt_field geminiCLI ''safetySettings''),
                        (''tools'', opt_field geminiCLI ''tools'')])])
   }"

definition openaiToAntigravity :: "gemini_helpers \<Rightarrow> json \<Rightarrow> json \<Rightarrow> json \<Rightarrow> json \<Rightarrow> jsval option" where
  "openaiToAntigravity h model body stream credentials = do {
     geminiCLI \<leftarrow> openaiToGeminiCLI h model body stream;
     wrapInCloudCodeEnvelope h model geminiCLI credentials
   }"

section \<open>Stop reasons and finish reasons\<close>

text \<open>
  \<open>convertStopReason\<close> and \<open>convertFinishReason\<close> are \<open>switch\<close> statements on the
  reason, compared with \<open>===\<close> against string literals, with a \<open>default\<close> branch.
\<close>

definition convertStopReason :: "json \<Rightarrow> json" where
  "convertStopReason reason =
     (if reason = JStr ''end_turn'' then JStr ''stop''
      else if reason = JStr ''max_tokens'' then JStr ''length''
      else if reason = JStr ''tool_use'' then JStr ''tool_calls''
      else if reason = JStr ''stop_sequence'' then JStr ''stop''
      else JStr ''stop'')"

definition convertFinishReason :: "json \<Rightarrow> json" where
  "convertFinishReason reason =
     (if reason = JStr ''stop'' then JStr ''end_turn''
      else if reason = JStr ''length'' then JStr ''max_tokens''
      else if reason = JStr ''tool_calls'' then JStr ''tool_use''
      else JStr ''end_turn'')"

definition claude_reasons :: "json set" where
  "claude_reasons = {JStr ''tool_use'', JStr ''max_tokens'', JStr ''end_turn''}"

definition openai_reasons :: "json set" where
  "openai_reasons = {JStr ''tool_calls'', JStr ''length'', JStr ''stop''}"

section \<open>Stream state\<close>

text \<open>
  One state object belongs to each streamed exchange; the caller creates it and passes it
  to every call of the response translator of that exchange, which mutates it. The model
  passes the state in and returns the updated state. Fields that the translators only
  test for truthiness are booleans; the counters are integers (the caller or the first
  event initialises them; a counter that holds no number is outside the model); the other
  fields hold whatever value was assigned, \<open>undefined\<close> before the first assignment.
  \<open>toolCalls\<close> is a JavaScript \<open>Map\<close>: the list of its entries in insertion order.
\<close>

record stream_state =
  messageId :: json
  model :: json
  messageStartSent :: bool
  toolCallIndex :: int
  functionIndex :: int
  nextBlockIndex :: int
  textBlockStarted :: bool
  textBlockClosed :: bool
  textBlockIndex :: json
  thinkingBlockStarted :: bool
  thinkingBlockIndex :: json
  inThinkingBlock :: bool
  currentBlockIndex :: json
  toolCalls :: "(json \<times> json) list"
  finishReason :: json
  finishReasonSent :: bool
  usage :: json

text \<open>
  \<open>===\<close> and the key comparison of a \<open>Map\<close> agree with equality on \<open>undefined\<close>,
  \<open>null\<close>, booleans, numbers and strings. Arrays and objects are compared by reference:
  two of them that come from different parsed events are never equal.
\<close>

fun is_prim :: "json \<Rightarrow> bool" where
  "is_prim (JArr xs) = False"
| "is_prim (JObj kvs) = False"
| "is_prim v = True"

definition strict_eq :: "json \<Rightarrow> json \<Rightarrow> bool" where
  "strict_eq a b = (is_prim a \<and> a = b)"

fun map_get :: "(json \<times> json) list \<Rightarrow> json \<Rightarrow> json" where
  "map_get [] k = JUndef"
| "map_get ((k', v') # m) k = (if strict_eq k' k then v' else map_get m k)"

fun map_set :: "(json \<times> json) list \<Rightarrow> json \<Rightarrow> json \<Rightarrow> (json \<times> json) list" where
  "map_set [] k v = [(k, v)]"
| "map_set ((k', v') # m) k v =
     (if strict_eq k' k then (k', v) # m else (k', v') # map_set m k v)"

text \<open>
  \<open>a + b\<close>: string concatenation when an operand is a string, an array or an object,
  the sum of the numbers otherwise (\<open>null\<close> and \<open>false\<close> count 0, \<open>true\<close> counts 1).
  The result \<open>None\<close> stands for NaN, which \<open>undefined\<close> gives.
\<close>

fun to_number :: "json \<Rightarrow> int option" where
  "to_number (JNum n) = Some n"
| "to_number (JBool b) = Some (if b then 1 else 0)"
| "to_number JNull = Some 0"
| "to_number v = None"

definition js_plus :: "json \<Rightarrow> json \<Rightarrow> json option" where
  "js_plus a b =
     (if typeof a = ''string'' \<or> typeof b = ''string'' \<or> \<not> is_prim a \<or> \<not> is_prim b
      then Some (JStr (to_string a @ to_string b))
      else do { x \<leftarrow> to_number a; y \<leftarrow> to_number b; Some (JNum (x + y)) })"

section \<open>Claude stream events to OpenAI chunks\<close>

text \<open>
  \<open>Date.now()\<close> is the parameter \<open>now\<close> (milliseconds) of a call; \<open>console.log\<close> is
  left out. A call returns the value it returns in JavaScript (\<open>null\<close> or the array of
  the chunks it emits, each as it is when the call returns) and the state it leaves;
  \<open>None\<close> when it throws a TypeError.
\<close>

definition createChunk :: "int \<Rightarrow> stream_state \<Rightarrow> json \<Rightarrow> json \<Rightarrow> json" where
  "createChunk now state delta finish =
     JObj [(''id'', JStr (''chatcmpl-'' @ to_string (messageId state))),
           (''object'', JStr ''chat.completion.chunk''),
           (''created'', JNum (now div 1000)),
           (''model'', model state),
           (''choices'', JArr [JObj [(''index'', JNum 0),
                                     (''delta'', delta),
                                     (''finish_reason'', finish)]])]"

definition results_value :: "json list \<Rightarrow> json" where
  "results_value results = (if length results > 0 then JArr results else JNull)"

definition message_start_event :: "int \<Rightarrow> json \<Rightarrow> stream_state \<Rightarrow> (json list \<times> stream_state) option" where
  "message_start_event now chunk state = do {
     message \<leftarrow> get_prop chunk ''message'';
     let state = state\<lparr>messageId :=
                   js_or (opt_prop message ''id'') (JStr (''msg_'' @ show_int now))\<rparr>;
     let state = state\<lparr>model := opt_prop message ''model''\<rparr>;
     let state = state\<lparr>toolCallIndex := 0\<rparr>;
     Some ([createChunk now state (JObj [(''role'', JStr ''assistant'')]) JNull], state)
   }"

definition content_block_start_event :: "int \<Rightarrow> json \<Rightarrow> stream_state \<Rightarrow> (json list \<times> stream_state) option" where
  "content_block_start_event now chunk state = do {
     block \<leftarrow> get_prop chunk ''content_block'';
     if opt_prop block ''type'' = JStr ''text'' then
       Some ([], state\<lparr>textBlockStarted := True\<rparr>)
     else if opt_prop block ''type'' = JStr ''thinking'' then do {
       index \<leftarrow> get_prop chunk ''index'';
       let state = state\<lparr>inThinkingBlock := True, currentBlockIndex := index\<rparr>;
       Some ([createChunk now state (JObj [(''content'', JStr ''<think>'')]) JNull], state)
     }
     else if opt_prop block ''type'' = JStr ''tool_use'' then do {
       let tcIndex = toolCallIndex state;
       let state = state\<lparr>toolCallIndex := tcIndex + 1\<rparr>;
       id \<leftarrow> get_prop block ''id'';
       name \<leftarrow> get_prop block ''name'';
       let toolCall = JObj [(''index'', JNum tcIndex),
                            (''id'', id),
                            (''type'', JStr ''function''),
                            (''function'', JObj [(''name'', name), (''arguments'', JStr [])])];
       index \<leftarrow> get_prop chunk ''index'';
       let state = state\<lparr>toolCalls := map_set (toolCalls state) index toolCall\<rparr>;
       Some ([createChunk now state (JObj [(''tool_calls'', JArr [toolCall])]) JNull], state)
     }
     else Some ([], state)
   }"

text \<open>
  \<open>toolCall.function.arguments += delta.partial_json\<close> on the entry of the \<open>Map\<close>:
  a TypeError when \<open>toolCall.function\<close> is \<open>null\<close> or \<open>undefined\<close>, or when it is
  not an object whose property can be assigned.
\<close>

definition append_arguments :: "json \<Rightarrow> json \<Rightarrow> json option" where
  "append_arguments toolCall fragment = do {
     fn \<leftarrow> get_prop toolCall ''function'';
     arguments \<leftarrow> get_prop fn ''arguments'';
     arguments' \<leftarrow> js_plus arguments fragment;
     (case (toolCall, fn) of
        (JObj tc, JObj f) \<Rightarrow>
          Some (JObj (set_prop tc ''function'' (JObj (set_prop f ''arguments'' arguments'))))
      | _ \<Rightarrow> None)
   }"

definition content_block_delta_event :: "int \<Rightarrow> json \<Rightarrow> stream_state \<Rightarrow> (json list \<times> stream_state) option" where
  "content_block_delta_event now chunk state = do {
     delta \<leftarrow> get_prop chunk ''delta'';
     if opt_prop delta ''type'' = JStr ''text_delta'' \<and> truthy (opt_prop delta ''text'') then do {
       text \<leftarrow> get_prop delta ''text'';
       Some ([createChunk now state (JObj [(''content'', text)]) JNull], state)
     }
     else if opt_prop delta ''type'' = JStr ''thinking_delta''
             \<and> truthy (opt_prop delta ''thinking'') then do {
       thinking \<leftarrow> get_prop delta ''thinking'';
       Some ([createChunk now state (JObj [(''content'', thinking)]) JNull], state)
     }
     else if opt_prop delta ''type'' = JStr ''input_json_delta''
             \<and> truthy (opt_prop delta ''partial_json'') then do {
       index \<leftarrow> get_prop chunk ''index'';
       partial_json \<leftarrow> get_prop delta ''partial_json'';
       let toolCall = map_get (toolCalls state) index;
       if truthy toolCall then do {
         toolCall' \<leftarrow> append_arguments toolCall partial_json;
         let state = state\<lparr>toolCalls := map_set (toolCalls state) index toolCall'\<rparr>;
         tc_index \<leftarrow> get_prop toolCall' ''index'';
         tc_id \<leftarrow> get_prop toolCall' ''id'';
         Some ([createChunk now state
                  (JObj [(''tool_calls'',
                          JArr [JObj [(''index'', tc_index),
                                      (''id'', tc_id),
                                      (''function'', JObj [(''arguments'', partial_json)])]])])
                  JNull], state)
       }
       else Some ([], state)
     }
     else Some ([], state)
   }"

definition content_block_stop_event :: "int \<Rightarrow> json \<Rightarrow> stream_state \<Rightarrow> (json list \<times> stream_state) option" where
  "content_block_stop_event now chunk state = do {
     index \<leftarrow> get_prop chunk ''index'';
     let (results, state) =
       (if inThinkingBlock state \<and> strict_eq index (currentBlockIndex state)
        then ([createChunk now state (JObj [(''content'', JStr ''</think>'')]) JNull],
              state\<lparr>inThinkingBlock := False\<rparr>)
        else ([], state));
     Some (results, state\<lparr>textBlockStarted := False, thinkingBlockStarted := False\<rparr>)
   }"

definition message_delta_event :: "int \<Rightarrow> json \<Rightarrow> stream_state \<Rightarrow> (json list \<times> stream_state) option" where
  "message_delta_event now chunk state = do {
     delta \<leftarrow> get_prop chunk ''delta'';
     if truthy (opt_prop delta ''stop_reason'') then do {
       stop_reason \<leftarrow> get_prop delta ''stop_reason'';
       let state = state\<lparr>finishReason := convertStopReason stop_reason\<rparr>;
       let results = [createChunk now state (JObj []) (finishReason state)];
       Some (results, state\<lparr>finishReasonSent := True\<rparr>)
     }
     else Some ([], state)
   }"

definition usage_field :: "json \<Rightarrow> (string \<times> json) list option" where
  "usage_field u =
     (if truthy u then do {
        input_tokens \<leftarrow> get_prop u ''input_tokens'';
        output_tokens \<leftarrow> get_prop u ''output_tokens'';
        total \<leftarrow> js_plus (js_or input_tokens (JNum 0)) (js_or output_tokens (JNum 0));
        Some [(''usage'', JObj [(''prompt_tokens'', js_or input_tokens (JNum 0)),
                               (''completion_tokens'', js_or output_tokens (JNum 0)),
                               (''total_tokens'', total)])]
      }
      else Some [])"

definition message_stop_event :: "int \<Rightarrow> json \<Rightarrow> stream_state \<Rightarrow> (json list \<times> stream_state) option" where
  "message_stop_event now chunk state =
     (if \<not> finishReasonSent state then do {
        let finish =
          js_or (finishReason state)
            (if length (toolCalls state) > 0 then JStr ''tool_calls'' else JStr ''stop'');
        extra \<leftarrow> usage_field (usage state);
        (case createChunk now state (JObj []) finish of
           JObj kvs \<Rightarrow> Some ([JObj (kvs @ extra)], state\<lparr>finishReasonSent := True\<rparr>)
         | _ \<Rightarrow> None)
      }
      else Some ([], state))"

definition claudeToOpenAIResponse :: "int \<Rightarrow> json \<Rightarrow> stream_state \<Rightarrow> (json \<times> stream_state) option" where
  "claudeToOpenAIResponse now chunk state =
     (if \<not> truthy chunk then Some (JNull, state)
      else do {
        event \<leftarrow> get_prop chunk ''type'';
        (results, state) \<leftarrow>
          (if event = JStr ''message_start'' then message_start_event now chunk state
           else if event = JStr ''content_block_start'' then content_block_start_event now chunk state
           else if event = JStr ''content_block_delta'' then content_block_delta_event now chunk state
           else if event = JStr ''content_block_stop'' then content_block_stop_event now chunk state
           else if event = JStr ''message_delta'' then message_delta_event now chunk state
           else if event = JStr ''message_stop'' then message_stop_event now chunk state
           else Some ([], state));
        Some (results_value results, state)
      })"

text \<open>
  An exchange: the events of one stream, each with the clock reading of its call, folded
  through the translator over one state. The chunks of all calls are collected in
  emission order.
\<close>

fun emitted :: "json \<Rightarrow> json list" where
  "emitted (JArr chunks) = chunks"
| "emitted v = []"

fun claude_exchange :: "(int \<times> json) list \<Rightarrow> stream_state \<Rightarrow> (json list \<times> stream_state) option" where
  "claude_exchange [] state = Some ([], state)"
| "claude_exchange ((now, chunk) # events) state = do {
     (r, state') \<leftarrow> claudeToOpenAIResponse now chunk state;
     (rs, state'') \<leftarrow> claude_exchange events state';
     Some (emitted r @ rs, state'')
   }"

text \<open>A state as the caller creates it: nothing assigned, counters at 0, an empty \<open>Map\<close>.\<close>

definition initial_state :: stream_state where
  "initial_state =
     \<lparr>messageId = JUndef, model = JUndef, messageStartSent = False, toolCallIndex = 0,
      functionIndex = 0, nextBlockIndex = 0, textBlockStarted = False,
      textBlockClosed = False, textBlockIndex = JUndef, thinkingBlockStarted = False,
      thinkingBlockIndex = JUndef, inThinkingBlock = False, currentBlockIndex = JUndef,
      toolCalls = [], finishReason = JUndef, finishReasonSent = False, usage = JUndef\<rparr>"

section \<open>OpenAI chunks to Claude stream events\<close>

definition stopThinkingBlock :: "stream_state \<Rightarrow> json list \<Rightarrow> stream_state \<times> json list" where
  "stopThinkingBlock state results =
     (if \<not> thinkingBlockStarted state then (state, results)
      else (state\<lparr>thinkingBlockStarted := False\<rparr>,
            results @ [JObj [(''type'', JStr ''content_block_stop''),
                             (''index'', thinkingBlockIndex state)]]))"

definition stopTextBlock :: "stream_state \<Rightarrow> json list \<Rightarrow> stream_state \<times> json list" where
  "stopTextBlock state results =
     (if \<not> textBlockStarted state \<or> textBlockClosed state then (state, results)
      else (state\<lparr>textBlockClosed := True, textBlockStarted := False\<rparr>,
            results @ [JObj [(''type'', JStr ''content_block_stop''),
                             (''index'', textBlockIndex state)]]))"

text \<open>The first chunk of an exchange: \<open>message_start\<close> with the message id.\<close>

definition first_chunk :: "int \<Rightarrow> json \<Rightarrow> stream_state \<Rightarrow> json list \<Rightarrow> (stream_state \<times> json list) option" where
  "first_chunk now chunk state results =
     (if \<not> messageStartSent state then do {
        let state = state\<lparr>messageStartSent := True\<rparr>;
        id \<leftarrow> get_prop chunk ''id'';
        replaced \<leftarrow> (case id of
                       JUndef \<Rightarrow> Some JUndef
                     | JNull \<Rightarrow> Some JUndef
                     | JStr s \<Rightarrow> Some (JStr (replace_first ''chatcmpl-'' [] s))
                     | _ \<Rightarrow> None);
        let state = state\<lparr>messageId := js_or replaced (JStr (''msg_'' @ show_int now))\<rparr>;
        extend_fields \<leftarrow> get_prop chunk ''extend_fields'';
        let state =
          (if \<not> truthy (messageId state) \<or> messageId state = JStr ''chat''
              \<or> length_less (messageId state) 8
           then state\<lparr>messageId :=
                  js_or (opt_prop extend_fields ''requestId'')
                    (js_or (opt_prop extend_fields ''traceId'') (JStr (''msg_'' @ show_int now)))\<rparr>
           else state);
        chunk_model \<leftarrow> get_prop chunk ''model'';
        let state = state\<lparr>model := js_or chunk_model (JStr ''unknown'')\<rparr>;
        let state = state\<lparr>nextBlockIndex := 0\<rparr>;
        Some (state,
              results @ [JObj [(''type'', JStr ''message_start''),
                (''message'',
                 JObj [(''id'', messageId state),
                       (''type'', JStr ''message''),
                       (''role'', JStr ''assistant''),
                       (''model'', model state),
                       (''content'', JArr []),
                       (''stop_reason'', JNull),
                       (''stop_sequence'', JNull),
                       (''usage'', JObj [(''input_tokens'', JNum 0), (''output_tokens'', JNum 0)])])]])
      }
      else Some (state, results))"

definition reasoning_delta :: "json \<Rightarrow> stream_state \<Rightarrow> json list \<Rightarrow> stream_state \<times> json list" where
  "reasoning_delta delta state results =
     (let reasoningContent =
            js_or (opt_prop delta ''reasoning_content'') (opt_prop delta ''reasoning'')
      in if truthy reasoningContent then
           (let (state, results) = stopTextBlock state results;
                (state, results) =
                  (if \<not> thinkingBlockStarted state then
                     (state\<lparr>thinkingBlockIndex := JNum (nextBlockIndex state),
                             nextBlockIndex := nextBlockIndex state + 1,
                             thinkingBlockStarted := True\<rparr>,
                      results @ [JObj [(''type'', JStr ''content_block_start''),
                                       (''index'', JNum (nextBlockIndex state)),
                                       (''content_block'',
                                        JObj [(''type'', JStr ''thinking''),
                                              (''thinking'', JStr [])])]])
                   else (state, results))
            in (state,
                results @ [JObj [(''type'', JStr ''content_block_delta''),
                                 (''index'', thinkingBlockIndex state),
                                 (''delta'', JObj [(''type'', JStr ''thinking_delta''),
                                                   (''thinking'', reasoningContent)])]]))
         else (state, results))"

definition content_delta :: "json \<Rightarrow> stream_state \<Rightarrow> json list \<Rightarrow> stream_state \<times> json list" where
  "content_delta delta state results =
     (if truthy (opt_prop delta ''content'') then
        (let (state, results) = stopThinkingBlock state results;
             (state, results) =
               (if \<not> textBlockStarted state then
                  (state\<lparr>textBlockIndex := JNum (nextBlockIndex state),
                          nextBlockIndex := nextBlockIndex state + 1,
                          textBlockStarted := True,
                          textBlockClosed := False\<rparr>,
                   results @ [JObj [(''type'', JStr ''content_block_start''),
                                    (''index'', JNum (nextBlockIndex state)),
                                    (''content_block'',
                                     JObj [(''type'', JStr ''text''), (''text'', JStr [])])]])
                else (state, results))
         in (state,
             results @ [JObj [(''type'', JStr ''content_block_delta''),
                              (''index'', textBlockIndex state),
                              (''delta'', JObj [(''type'', JStr ''text_delta''),
                                                (''text'', opt_prop delta ''content'')])]]))
      else (state, results))"

text \<open>
  One iteration of the loop over \<open>delta.tool_calls\<close>. (\<open>tc.index ?? 0\<close> is the \<open>Map\<close>
  key; no format sends an array or object there, for which the lookup after the insertion
  would compare references.)
\<close>

definition tool_call_delta :: "json \<Rightarrow> stream_state \<Rightarrow> json list \<Rightarrow> (stream_state \<times> json list) option" where
  "tool_call_delta tc state results = do {
     tc_index \<leftarrow> get_prop tc ''index'';
     let idx = (if tc_index = JUndef \<or> tc_index = JNull then JNum 0 else tc_index);
     tc_id \<leftarrow> get_prop tc ''id'';
     tc_function \<leftarrow> get_prop tc ''function'';
     let (state, results) =
       (if truthy tc_id then
          (let (state, results) = stopThinkingBlock state results;
               (state, results) = stopTextBlock state results;
               toolBlockIndex = nextBlockIndex state;
               state = state\<lparr>nextBlockIndex := toolBlockIndex + 1\<rparr>;
               state = state\<lparr>toolCalls := map_set (toolCalls state) idx
                         (JObj [(''id'', tc_id),
                                (''name'', js_or (opt_prop tc_function ''name'') (JStr [])),
                                (''blockIndex'', JNum toolBlockIndex)])\<rparr>
           in (state,
               results @ [JObj [(''type'', JStr ''content_block_start''),
                                (''index'', JNum toolBlockIndex),
                                (''content_block'',
                                 JObj [(''type'', JStr ''tool_use''),
                                       (''id'', tc_id),
                                       (''name'', js_or (opt_prop tc_function ''name'') (JStr [])),
                                       (''input'', JObj [])])]]))
        else (state, results));
     if truthy (opt_prop tc_function ''arguments'') then do {
       let toolInfo = map_get (toolCalls state) idx;
       if truthy toolInfo then do {
         blockIndex \<leftarrow> get_prop toolInfo ''blockIndex'';
         arguments \<leftarrow> get_prop tc_function ''arguments'';
         Some (state,
               results @ [JObj [(''type'', JStr ''content_block_delta''),
                                (''index'', blockIndex),
                                (''delta'', JObj [(''type'', JStr ''input_json_delta''),
                                                  (''partial_json'', arguments)])]])
       }
       else Some (state, results)
     }
     else Some (state, results)
   }"

fun tool_call_deltas :: "json list \<Rightarrow> stream_state \<Rightarrow> json list \<Rightarrow> (stream_state \<times> json list) option" where
  "tool_call_deltas [] state results = Some (state, results)"
| "tool_call_deltas (tc # tcs) state results = do {
     (state, results) \<leftarrow> tool_call_delta tc state results;
     tool_call_deltas tcs state results
   }"

fun close_tool_blocks :: "(json \<times> json) list \<Rightarrow> json list \<Rightarrow> json list option" where
  "close_tool_blocks [] results = Some results"
| "close_tool_blocks ((k, toolInfo) # entries) results = do {
     blockIndex \<leftarrow> get_prop toolInfo ''blockIndex'';
     close_tool_blocks entries
       (results @ [JObj [(''type'', JStr ''content_block_stop''), (''index'', blockIndex)]])
   }"

definition finish_chunk :: "json \<Rightarrow> stream_state \<Rightarrow> json list \<Rightarrow> (stream_state \<times> json list) option" where
  "finish_chunk choice state results = do {
     finish_reason \<leftarrow> get_prop choice ''finish_reason'';
     if truthy finish_reason then do {
       let (state, results) = stopThinkingBlock state results;
       let (state, results) = stopTextBlock state results;
       results \<leftarrow> close_tool_blocks (toolCalls state) results;
       Some (state,
             results @ [JObj [(''type'', JStr ''message_delta''),
                              (''delta'', JObj [(''stop_reason'', convertFinishReason finish_reason)]),
                              (''usage'', JObj [(''output_tokens'', JNum 0)])],
                        JObj [(''type'', JStr ''message_stop'')]])
     }
     else Some (state, results)
   }"

definition openaiToClaudeResponse :: "int \<Rightarrow> json \<Rightarrow> stream_state \<Rightarrow> (json \<times> stream_state) option" where
  "openaiToClaudeResponse now chunk state =
     (if \<not> truthy chunk \<or> \<not> truthy (opt_index0 (opt_prop chunk ''choices''))
      then Some (JNull, state)
      else do {
        choices \<leftarrow> get_prop chunk ''choices'';
        choice \<leftarrow> index0 choices;
        delta \<leftarrow> get_prop choice ''delta'';
        (state, results) \<leftarrow> first_chunk now chunk state [];
        let (state, results) = reasoning_delta delta state results;
        let (state, results) = content_delta delta state results;
        (state, results) \<leftarrow>
          (if truthy (opt_prop delta ''tool_calls'') then do {
             tool_calls \<leftarrow> get_prop delta ''tool_calls'';
             tcs \<leftarrow> iterate tool_calls;
             tool_call_deltas tcs state results
           }
           else Some (state, results));
        (state, results) \<leftarrow> finish_chunk choice state results;
        Some (results_value results, state)
      })"

section \<open>Gemini response chunks to OpenAI chunks\<close>

text \<open>
  \<open>JSON.stringify\<close> on a value other than \<open>undefined\<close>: properties whose value is
  \<open>undefined\<close> are left out, \<open>undefined\<close> in an array is written \<open>null\<close>, and
  strings are quoted with the escapes of JSON.
\<close>

definition hex_digit :: "nat \<Rightarrow> char" where
  "hex_digit n = ''0123456789abcdef'' ! (n mod 16)"

definition escape_char :: "char \<Rightarrow> string" where
  "escape_char c =
     (if c = CHR 0x22 then [CHR 0x5C, CHR 0x22]
      else if c = CHR 0x5C then [CHR 0x5C, CHR 0x5C]
      else if c = CHR 0x08 then [CHR 0x5C, CHR ''b'']
      else if c = CHR 0x0C then [CHR 0x5C, CHR ''f'']
      else if c = CHR 0x0A then [CHR 0x5C, CHR ''n'']
      else if c = CHR 0x0D then [CHR 0x5C, CHR ''r'']
      else if c = CHR 0x09 then [CHR 0x5C, CHR ''t'']
      else if of_char c < (32::nat) then
        [CHR 0x5C, CHR ''u'', CHR ''0'', CHR ''0'',
         hex_digit (of_char c div 16), hex_digit (of_char c)]
      else [c])"

definition quote :: "string \<Rightarrow> string" where
  "quote s = [CHR 0x22] @ concat (map escape_char s) @ [CHR 0x22]"

fun stringify :: "json \<Rightarrow> string" where
  "stringify JUndef = ''null''"
| "stringify JNull = ''null''"
| "stringify (JBool b) = (if b then ''true'' else ''false'')"
| "stringify (JNum n) = show_int n"
| "stringify (JStr s) = quote s"
| "stringify (JArr xs) = ''['' @ join '','' (map stringify xs) @ '']''"
| "stringify (JObj kvs) =
     ''{'' @ join '','' (map (\<lambda>kv. quote (fst kv) @ '':'' @ stringify (snd kv))
                          (filter (\<lambda>kv. snd kv \<noteq> JUndef) kvs)) @ ''}''"

text \<open>
  \<open>x > 0\<close> is decided on numbers, booleans, \<open>null\<close> and \<open>undefined\<close>; on other
  values the result \<open>None\<close> says that the comparison is outside the model. In this
  section \<open>None\<close> is a TypeError or such a comparison.
\<close>

fun greater_zero :: "json \<Rightarrow> bool option" where
  "greater_zero (JNum n) = Some (n > 0)"
| "greater_zero (JBool b) = Some b"
| "greater_zero JUndef = Some False"
| "greater_zero JNull = Some False"
| "greater_zero v = None"

definition function_call_part :: "int \<Rightarrow> json \<Rightarrow> stream_state \<Rightarrow> json list \<Rightarrow> (stream_state \<times> json list) option" where
  "function_call_part now part state results = do {
     functionCall \<leftarrow> get_prop part ''functionCall'';
     fcName \<leftarrow> get_prop functionCall ''name'';
     args \<leftarrow> get_prop functionCall ''args'';
     let fcArgs = js_or args (JObj []);
     let tcIndex = functionIndex state;
     let state = state\<lparr>functionIndex := tcIndex + 1\<rparr>;
     let toolCall =
       JObj [(''id'', JStr (to_string fcName @ ''-'' @ show_int now @ ''-'' @ show_int tcIndex)),
             (''index'', JNum tcIndex),
             (''type'', JStr ''function''),
             (''function'', JObj [(''name'', fcName), (''arguments'', JStr (stringify fcArgs))])];
     let state = state\<lparr>toolCalls := map_set (toolCalls state) (JNum tcIndex) toolCall\<rparr>;
     Some (state, results @ [createChunk now state (JObj [(''tool_calls'', JArr [toolCall])]) JNull])
   }"

definition gemini_part :: "int \<Rightarrow> json \<Rightarrow> stream_state \<Rightarrow> json list \<Rightarrow> (stream_state \<times> json list) option" where
  "gemini_part now part state results = do {
     thoughtSignature \<leftarrow> get_prop part ''thoughtSignature'';
     thought_signature \<leftarrow> get_prop part ''thought_signature'';
     let hasThoughtSig = js_or thoughtSignature thought_signature;
     thought \<leftarrow> get_prop part ''thought'';
     let isThought = (thought = JBool True);
     part_text \<leftarrow> get_prop part ''text'';
     part_functionCall \<leftarrow> get_prop part ''functionCall'';
     if truthy hasThoughtSig then do {
       let hasTextContent = (part_text \<noteq> JUndef \<and> part_text \<noteq> JStr []);
       let hasFunctionCall = truthy part_functionCall;
       let results =
         (if hasTextContent then
            results @ [createChunk now state
                         (if isThought then JObj [(''reasoning_content'', part_text)]
                          else JObj [(''content'', part_text)])
                         JNull]
          else results);
       if hasFunctionCall then function_call_part now part state results
       else Some (state, results)
     }
     else do {
       let results =
         (if part_text \<noteq> JUndef \<and> part_text \<noteq> JStr [] then
            results @ [createChunk now state (JObj [(''content'', part_text)]) JNull]
          else results);
       (state, results) \<leftarrow>
         (if truthy part_functionCall then function_call_part now part state results
          else Some (state, results));
       part_inlineData \<leftarrow> get_prop part ''inlineData'';
       part_inline_data \<leftarrow> get_prop part ''inline_data'';
       let inlineData = js_or part_inlineData part_inline_data;
       if truthy (opt_prop inlineData ''data'') then do {
         mimeType1 \<leftarrow> get_prop inlineData ''mimeType'';
         mime_type \<leftarrow> get_prop inlineData ''mime_type'';
         let mimeType = js_or mimeType1 (js_or mime_type (JStr ''image/png''));
         inline_data \<leftarrow> get_prop inlineData ''data'';
         Some (state,
               results @ [createChunk now state
                 (JObj [(''images'',
                    JArr [JObj [(''type'', JStr ''image_url''),
                                (''image_url'',
                                 JObj [(''url'', JStr (''data:'' @ to_string mimeType @ '';base64,''
                                                       @ to_string inline_data))])]])])
                 JNull])
       }
       else Some (state, results)
     }
   }"

fun gemini_parts :: "int \<Rightarrow> json list \<Rightarrow> stream_state \<Rightarrow> json list \<Rightarrow> (stream_state \<times> json list) option" where
  "gemini_parts now [] state results = Some (state, results)"
| "gemini_parts now (part # parts) state results = do {
     (state, results) \<leftarrow> gemini_part now part state results;
     gemini_parts now parts state results
   }"

definition gemini_usage :: "json \<Rightarrow> stream_state \<Rightarrow> stream_state option" where
  "gemini_usage u state =
     (if truthy u then do {
        promptTokenCount \<leftarrow> get_prop u ''promptTokenCount'';
        thoughtsTokenCount \<leftarrow> get_prop u ''thoughtsTokenCount'';
        promptTokens \<leftarrow> js_plus (js_or promptTokenCount (JNum 0)) (js_or thoughtsTokenCount (JNum 0));
        candidatesTokenCount \<leftarrow> get_prop u ''candidatesTokenCount'';
        totalTokenCount \<leftarrow> get_prop u ''totalTokenCount'';
        let fields = [(''prompt_tokens'', promptTokens),
                      (''completion_tokens'', js_or candidatesTokenCount (JNum 0)),
                      (''total_tokens'', js_or totalTokenCount (JNum 0))];
        positive \<leftarrow> greater_zero thoughtsTokenCount;
        Some (state\<lparr>usage :=
                JObj (if positive
                      then set_prop fields ''completion_tokens_details''
                             (JObj [(''reasoning_tokens'', thoughtsTokenCount)])
                      else fields)\<rparr>)
      }
      else Some state)"

definition geminiToOpenAIResponse :: "int \<Rightarrow> json \<Rightarrow> stream_state \<Rightarrow> (json \<times> stream_state) option" where
  "geminiToOpenAIResponse now chunk state =
     (if \<not> truthy chunk then Some (JNull, state)
      else do {
        chunk_response \<leftarrow> get_prop chunk ''response'';
        let response = js_or chunk_response chunk;
        if \<not> truthy response \<or> \<not> truthy (opt_index0 (opt_prop response ''candidates''))
        then Some (JNull, state)
        else do {
          candidates \<leftarrow> get_prop response ''candidates'';
          candidate \<leftarrow> index0 candidates;
          content \<leftarrow> get_prop candidate ''content'';
          (state, results) \<leftarrow>
            (if \<not> truthy (messageId state) then do {
               responseId \<leftarrow> get_prop response ''responseId'';
               modelVersion \<leftarrow> get_prop response ''modelVersion'';
               let state = state\<lparr>messageId := js_or responseId (JStr (''msg_'' @ show_int now)),
                                  model := js_or modelVersion (JStr ''gemini''),
                                  functionIndex := 0\<rparr>;
               Some (state, [createChunk now state (JObj [(''role'', JStr ''assistant'')]) JNull])
             }
             else Some (state, []));
          (state, results) \<leftarrow>
            (if truthy (opt_prop content ''parts'') then do {
               content_parts \<leftarrow> get_prop content ''parts'';
               parts \<leftarrow> iterate content_parts;
               gemini_parts now parts state results
             }
             else Some (state, results));
          candidate_finishReason \<leftarrow> get_prop candidate ''finishReason'';
          (state, results) \<leftarrow>
            (if truthy candidate_finishReason then do {
               lowered \<leftarrow> toLowerCase candidate_finishReason;
               let finish =
                 (if lowered = JStr ''stop'' \<and> length (toolCalls state) > 0
                  then JStr ''tool_calls'' else lowered);
               Some (state\<lparr>finishReason := finish\<rparr>,
                     results @ [createChunk now state (JObj []) finish])
             }
             else Some (state, results));
          usageMetadata \<leftarrow> get_prop response ''usageMetadata'';
          chunk_usageMetadata \<leftarrow> get_prop chunk ''usageMetadata'';
          state \<leftarrow> gemini_usage (js_or usageMetadata chunk_usageMetadata) state;
          Some (results_value results, state)
        }
      })"

section \<open>Observations on a Claude to OpenAI exchange\<close>

text \<open>
  The tool calls that \<open>content_block_start\<close> records in \<open>toolCalls\<close> are objects
  \<open>{index, id, type, function: {name, arguments}}\<close> with a number as index and a string
  as argument buffer. A state is well formed when every entry of its \<open>Map\<close> is one.
\<close>

fun has_key :: "(json \<times> json) list \<Rightarrow> json \<Rightarrow> bool" where
  "has_key [] k = False"
| "has_key ((k', v') # m) k = (strict_eq k' k \<or> has_key m k)"




text \<open>
  What a consumer reads from the emitted chunks: the finish reason of a chunk, and the
  argument text that the chunks carry for the tool call with output index \<open>i\<close>, in
  emission order.
\<close>

definition finish_reason_of :: "json \<Rightarrow> json" where
  "finish_reason_of chunk =
     (case opt_prop chunk ''choices'' of
        JArr (c # cs) \<Rightarrow> opt_prop c ''finish_reason''
      | _ \<Rightarrow> JUndef)"






definition fragment :: "json \<Rightarrow> json" where
  "fragment e = opt_prop (opt_prop e ''delta'') ''partial_json''"




subsection \<open>Sample events\<close>

definition ev_message_start :: json where
  "ev_message_start =
     JObj [(''type'', JStr ''message_start''),
           (''message'', JObj [(''id'', JStr ''msg_01''), (''model'', JStr ''claude'')])]"

definition ev_tool_use_start :: json where
  "ev_tool_use_start =
     JObj [(''type'', JStr ''content_block_start''), (''index'', JNum 0),
           (''content_block'',
            JObj [(''type'', JStr ''tool_use''), (''id'', JStr ''t1''), (''name'', JStr ''lookup'')])]"

definition ev_input_json_delta :: "string \<Rightarrow> json" where
  "ev_input_json_delta s =
     JObj [(''type'', JStr ''content_block_delta''), (''index'', JNum 0),
           (''delta'', JObj [(''type'', JStr ''input_json_delta''), (''partial_json'', JStr s)])]"


definition ev_message_delta :: "string \<Rightarrow> json" where
  "ev_message_delta r =
     JObj [(''type'', JStr ''message_delta''), (''delta'', JObj [(''stop_reason'', JStr r)])]"


text \<open>The state after \<open>message_start\<close> and the start of the \<open>tool_use\<close> block \<open>t1\<close>.\<close>

definition open_tool_call_state :: stream_state where
  "open_tool_call_state =
     initial_state\<lparr>messageId := JStr ''msg_01'', model := JStr ''claude'', toolCallIndex := 1,
       toolCalls := [(JNum 0, JObj [(''index'', JNum 0), (''id'', JStr ''t1''),
                                    (''type'', JStr ''function''),
                                    (''function'', JObj [(''name'', JStr ''lookup''),
                                                         (''arguments'', JStr [])])])]\<rparr>"


section \<open>Observations on a translated request\<close>












subsection \<open>Sample request\<close>

text \<open>
  \<open>JSON.parse\<close> on the documents that the examples use; every other string of the
  examples is no JSON document.
\<close>

definition parse_table :: "string \<Rightarrow> json option" where
  \<open>parse_table s =
     map_of [(''{}'', JObj []),
             (''null'', JNull),
             (''42'', JNum 42),
             (''{"q":1}'', JObj [(''q'', JNum 1)])] s\<close>




subsection \<open>Sample helpers and the claimed function response\<close>

text \<open>
  Helpers for the examples: the constants are placeholders, the two helpers that
  \<open>to-openai/openai.js\<close> also defines are taken from there, the content converter
  turns a non-empty string into one text part, and the schema cleaner changes nothing.
\<close>

definition sample_helpers :: gemini_helpers where
  "sample_helpers =
     \<lparr>DEFAULT_THINKING_GEMINI_SIGNATURE = VStr ''signature'',
      DEFAULT_SAFETY_SETTINGS = VArr [],
      convertOpenAIContentToParts =
        (\<lambda>content. case content of
                     JStr s \<Rightarrow> (if s = [] then [] else [VObj [(''text'', VStr s)]])
                   | _ \<Rightarrow> []),
      extractTextContent_h =
        (\<lambda>content. case extractTextContent content of Some t \<Rightarrow> of_json t | None \<Rightarrow> VStr []),
      tryParseJSON_h =
        (\<lambda>str. case str of
                 VStr s \<Rightarrow> (case parse_table s of Some v \<Rightarrow> of_json v | None \<Rightarrow> str)
               | _ \<Rightarrow> str),
      cleanJSONSchemaForAntigravity = (\<lambda>schema. schema),
      generateRequestId = VStr ''request-1'',
      generateSessionId = VStr ''session-1'',
      generateProjectId = VStr ''project-1''\<rparr>"













subsection \<open>Requests on which no property read throws\<close>









section \<open>Theorems\<close>

text \<open>
  C2. The two reason mappings are mutually consistent on the defined set:
  \<open>convertStopReason\<close> maps tool_use to tool_calls, max_tokens to length and end_turn to
  stop; \<open>convertFinishReason\<close> maps tool_calls to tool_use, length to max_tokens and
  stop to end_turn; composing the two is the identity on each defined set; every value
  outside the defined set (a string or not) maps to stop under \<open>convertStopReason\<close> and to
  end_turn under \<open>convertFinishReason\<close>.
\<close>

theorem reason_mappings_consistent:
  "convertStopReason (JStr ''tool_use'') = JStr ''tool_calls''
   \<and> convertStopReason (JStr ''max_tokens'') = JStr ''length''
   \<and> convertStopReason (JStr ''end_turn'') = JStr ''stop''
   \<and> convertFinishReason (JStr ''tool_calls'') = JStr ''tool_use''
   \<and> convertFinishReason (JStr ''length'') = JStr ''max_tokens''
   \<and> convertFinishReason (JStr ''stop'') = JStr ''end_turn''
   \<and> (r \<in> claude_reasons \<longrightarrow> convertFinishReason (convertStopReason r) = r)
   \<and> (f \<in> openai_reasons \<longrightarrow> convertStopReason (convertFinishReason f) = f)
   \<and> (r' \<notin> claude_reasons \<longrightarrow> convertStopReason r' = JStr ''stop'')
   \<and> (f' \<notin> openai_reasons \<longrightarrow> convertFinishReason f' = JStr ''end_turn'')"
  by (auto simp: convertStopReason_def convertFinishReason_def claude_reasons_def
        openai_reasons_def)

theorem reason_mappings_consistent_witness:
  "JStr ''max_tokens'' \<in> claude_reasons
   \<and> convertFinishReason (convertStopReason (JStr ''max_tokens'')) = JStr ''max_tokens''
   \<and> JStr ''tool_calls'' \<in> openai_reasons
   \<and> convertStopReason (convertFinishReason (JStr ''tool_calls'')) = JStr ''tool_calls''
   \<and> JStr ''stop_sequence'' \<notin> claude_reasons
   \<and> convertStopReason (JStr ''stop_sequence'') = JStr ''stop''
   \<and> JNull \<notin> openai_reasons
   \<and> convertFinishReason JNull = JStr ''end_turn''"
  using reason_mappings_consistent
    [of "JStr ''max_tokens''" "JStr ''tool_calls''" "JStr ''stop_sequence''" JNull]
  by (simp add: claude_reasons_def openai_reasons_def)

subsection \<open>Claude stream events to OpenAI chunks\<close>



lemma map_get_no_key: "\<not> has_key m k \<Longrightarrow> map_get m k = JUndef"
  by (induction m) auto




lemma get_prop_truthy: "truthy v \<Longrightarrow> get_prop v k = Some (opt_prop v k)"
  by (cases v) auto






















lemma open_tool_call_state_reached:
  "claude_exchange [(1000, ev_message_start), (2000, ev_tool_use_start)] initial_state
   = Some ([createChunk 1000 open_tool_call_state (JObj [(''role'', JStr ''assistant'')]) JNull,
            createChunk 2000 open_tool_call_state
              (JObj [(''tool_calls'', JArr [map_get (toolCalls open_tool_call_state) (JNum 0)])]) JNull],
           open_tool_call_state)"
  by (simp add: claudeToOpenAIResponse_def message_start_event_def content_block_start_event_def
        ev_message_start_def ev_tool_use_start_def initial_state_def open_tool_call_state_def
        own_def js_or_def results_value_def createChunk_def strict_eq_def Let_def)





text \<open>
  C5. \<open>message_stop\<close> emits its terminal chunk only while \<open>finishReasonSent\<close> is
  false, but \<open>message_delta\<close> with a stop reason emits one whenever it arrives. Two
  such events in one exchange: the first sets \<open>finishReasonSent\<close> and emits a chunk with
  finish reason stop, and the second emits another chunk with finish reason stop.
\<close>

theorem second_message_delta_emits_finish_reason:
  "(case claudeToOpenAIResponse 1000 (ev_message_delta ''end_turn'') initial_state of
      Some (r1, s1) \<Rightarrow>
        map finish_reason_of (emitted r1) = [JStr ''stop''] \<and> finishReasonSent s1
        \<and> (case claudeToOpenAIResponse 2000 (ev_message_delta ''end_turn'') s1 of
              Some (r2, s2) \<Rightarrow> map finish_reason_of (emitted r2) = [JStr ''stop'']
            | None \<Rightarrow> False)
    | None \<Rightarrow> False)"
  by (simp add: claudeToOpenAIResponse_def message_delta_event_def ev_message_delta_def
        initial_state_def own_def results_value_def createChunk_def finish_reason_of_def
        convertStopReason_def Let_def)

text \<open>
  C10. A \<open>content_block_delta\<close> event of type \<open>input_json_delta\<close> whose index has no
  entry in \<open>toolCalls\<close> returns \<open>null\<close> (no chunk is emitted) and leaves the whole
  state, the tool-call Map and its argument buffers included, unchanged.
\<close>

theorem input_json_delta_unrecorded:
  assumes "opt_prop chunk ''type'' = JStr ''content_block_delta''"
    and "opt_prop (opt_prop chunk ''delta'') ''type'' = JStr ''input_json_delta''"
    and "\<not> has_key (toolCalls state) (opt_prop chunk ''index'')"
  shows "claudeToOpenAIResponse now chunk state = Some (JNull, state)"
proof -
  obtain kvs where c: "chunk = JObj kvs"
    using assms(1) by (cases chunk) auto
  obtain dkvs where d: "own kvs ''delta'' = JObj dkvs"
    using assms(2) c by (cases "own kvs ''delta''") auto
  have g: "map_get (toolCalls state) (own kvs ''index'') = JUndef"
    using assms(3) c by (simp add: map_get_no_key)
  show ?thesis
    using assms(1,2) c d g
    by (simp add: claudeToOpenAIResponse_def content_block_delta_event_def results_value_def)
qed

theorem input_json_delta_unrecorded_witness:
  "opt_prop (ev_input_json_delta ''1}'') ''type'' = JStr ''content_block_delta''
   \<and> opt_prop (opt_prop (ev_input_json_delta ''1}'') ''delta'') ''type'' = JStr ''input_json_delta''
   \<and> \<not> has_key (toolCalls initial_state) (opt_prop (ev_input_json_delta ''1}'') ''index'')
   \<and> claudeToOpenAIResponse 1000 (ev_input_json_delta ''1}'') initial_state
       = Some (JNull, initial_state)"
proof -
  have h1: "opt_prop (ev_input_json_delta ''1}'') ''type'' = JStr ''content_block_delta''"
    and h2: "opt_prop (opt_prop (ev_input_json_delta ''1}'') ''delta'') ''type'' = JStr ''input_json_delta''"
    and h3: "\<not> has_key (toolCalls initial_state) (opt_prop (ev_input_json_delta ''1}'') ''index'')"
    by (simp_all add: ev_input_json_delta_def own_def initial_state_def)
  from input_json_delta_unrecorded [OF h1 h2 h3, of 1000] h1 h2 h3 show ?thesis by blast
qed

subsection \<open>Chunks without a first choice or candidate\<close>

text \<open>
  C9. When the chunk is falsy (\<open>null\<close> and \<open>undefined\<close> among the falsy values) or has
  no truthy first choice, \<open>openaiToClaudeResponse\<close> returns \<open>null\<close>, so emits no event,
  and leaves the state unchanged; when the chunk is falsy or, after unwrapping the optional
  \<open>response\<close> envelope, has no truthy first candidate, \<open>geminiToOpenAIResponse\<close> does
  the same.
\<close>

theorem no_first_choice_or_candidate:
  "(\<not> truthy chunk \<or> \<not> truthy (opt_index0 (opt_prop chunk ''choices''))
     \<longrightarrow> openaiToClaudeResponse now chunk state = Some (JNull, state))
   \<and> (\<not> truthy chunk'
        \<or> \<not> truthy (opt_index0 (opt_prop (js_or (opt_prop chunk' ''response'') chunk') ''candidates''))
     \<longrightarrow> geminiToOpenAIResponse now' chunk' state' = Some (JNull, state'))"
proof (intro conjI impI)
  assume "\<not> truthy chunk \<or> \<not> truthy (opt_index0 (opt_prop chunk ''choices''))"
  then show "openaiToClaudeResponse now chunk state = Some (JNull, state)"
    by (simp add: openaiToClaudeResponse_def)
next
  assume a: "\<not> truthy chunk'
        \<or> \<not> truthy (opt_index0 (opt_prop (js_or (opt_prop chunk' ''response'') chunk') ''candidates''))"
  show "geminiToOpenAIResponse now' chunk' state' = Some (JNull, state')"
  proof (cases "truthy chunk'")
    case False
    then show ?thesis by (simp add: geminiToOpenAIResponse_def)
  next
    case True
    with a show ?thesis
      by (simp add: geminiToOpenAIResponse_def get_prop_truthy Let_def)
  qed
qed

theorem no_first_choice_or_candidate_witness:
  "\<not> truthy (opt_index0 (opt_prop (JObj [(''id'', JStr ''chatcmpl-1''), (''choices'', JArr [])]) ''choices''))
   \<and> openaiToClaudeResponse 1000 (JObj [(''id'', JStr ''chatcmpl-1''), (''choices'', JArr [])])
        open_tool_call_state = Some (JNull, open_tool_call_state)
   \<and> \<not> truthy JNull
   \<and> openaiToClaudeResponse 1000 JNull open_tool_call_state = Some (JNull, open_tool_call_state)
   \<and> \<not> truthy (opt_index0 (opt_prop (js_or (opt_prop
           (JObj [(''response'', JObj [(''usageMetadata'', JObj [(''totalTokenCount'', JNum 7)])])])
           ''response'')
           (JObj [(''response'', JObj [(''usageMetadata'', JObj [(''totalTokenCount'', JNum 7)])])]))
         ''candidates''))
   \<and> geminiToOpenAIResponse 1000
         (JObj [(''response'', JObj [(''usageMetadata'', JObj [(''totalTokenCount'', JNum 7)])])])
         initial_state = Some (JNull, initial_state)
   \<and> \<not> truthy JUndef
   \<and> geminiToOpenAIResponse 1000 JUndef initial_state = Some (JNull, initial_state)"
proof -
  let ?c = "JObj [(''id'', JStr ''chatcmpl-1''), (''choices'', JArr [])]"
  let ?g = "JObj [(''response'', JObj [(''usageMetadata'', JObj [(''totalTokenCount'', JNum 7)])])]"
  have h1: "\<not> truthy (opt_index0 (opt_prop ?c ''choices''))"
    by (simp add: own_def)
  have h2: "\<not> truthy (opt_index0 (opt_prop (js_or (opt_prop ?g ''response'') ?g) ''candidates''))"
    by (simp add: own_def js_or_def)
  have h3: "\<not> truthy JNull" and h4: "\<not> truthy JUndef"
    by simp_all
  note t1 = no_first_choice_or_candidate
    [where chunk = ?c and now = 1000 and state = open_tool_call_state
       and chunk' = ?g and now' = 1000 and state' = initial_state]
  note t2 = no_first_choice_or_candidate
    [where chunk = JNull and now = 1000 and state = open_tool_call_state
       and chunk' = JUndef and now' = 1000 and state' = initial_state]
  from t1 t2 h1 h2 h3 h4 show ?thesis by blast
qed

subsection \<open>OpenAI requests to Claude requests\<close>




























































text \<open>
  C4. The request with the system message \<open>Be terse\<close> and the user message \<open>hi\<close>
  translates to the result whose \<open>system\<close> is the preamble block followed by the block
  of the system text with the one-hour ephemeral cache marker, and whose \<open>messages\<close> is
  the single user message with the text block \<open>hi\<close>; whatever the model name, the
  stream flag, the preamble and the token policy are.
\<close>

theorem system_and_user_scenario:
  "openaiToClaude parse prompt adjustMaxTokens name
     (JObj [(''messages'',
             JArr [JObj [(''role'', JStr ''system''), (''content'', JStr ''Be terse'')],
                   JObj [(''role'', JStr ''user''), (''content'', JStr ''hi'')]])])
     stream
   = Some (JObj
       [(''model'', name),
        (''max_tokens'',
         adjustMaxTokens
           (JObj [(''messages'',
                   JArr [JObj [(''role'', JStr ''system''), (''content'', JStr ''Be terse'')],
                         JObj [(''role'', JStr ''user''), (''content'', JStr ''hi'')]])])),
        (''stream'', stream),
        (''messages'',
         JArr [JObj [(''role'', JStr ''user''),
                     (''content'', JArr [JObj [(''type'', JStr ''text''), (''text'', JStr ''hi'')]])]]),
        (''system'',
         JArr [JObj [(''type'', JStr ''text''), (''text'', prompt)],
               JObj [(''type'', JStr ''text''), (''text'', JStr ''Be terse''),
                     (''cache_control'',
                      JObj [(''type'', JStr ''ephemeral''), (''ttl'', JStr ''1h'')])]])])"
  by (simp add: openaiToClaude_def claude_messages_def claude_system_def claude_tools_def
        claude_tool_choice_def own_def getContentBlocksFromMessage_def merge_message_def
        flushCurrentMessage_def add_cache_control_def array_join_def has_type_def Let_def)

subsection \<open>OpenAI requests to Gemini requests\<close>




lemma to_key_primitive:
  "\<not> truthy v \<Longrightarrow> \<exists>k. to_key v = Some k"
  by (cases v) auto





























text \<open>
  A call id that names a member of \<open>Object.prototype\<close>. Without a tool-role message
  for the id \<open>constructor\<close>, the response holds the inherited function; the name is
  the one recorded for the id. A string assigned under \<open>__proto__\<close> is ignored by the
  setter, so both the name and the response of the id \<open>__proto__\<close> are
  \<open>Object.prototype\<close> itself.
\<close>

lemma call_id_naming_a_prototype_member:
  \<open>map_option (\<lambda>g. opt_field g ''contents'')
     (openaiToGeminiBase sample_helpers (JStr ''gemini-2.5-pro'')
        (JObj [(''messages'',
                JArr [JObj [(''role'', JStr ''assistant''), (''content'', JNull),
                            (''tool_calls'',
                             JArr [JObj [(''id'', JStr ''constructor''), (''type'', JStr ''function''),
                                         (''function'', JObj [(''name'', JStr ''lookup''),
                                                              (''arguments'', JStr ''{}'')])],
                                   JObj [(''id'', JStr ''__proto__''), (''type'', JStr ''function''),
                                         (''function'', JObj [(''name'', JStr ''lookup''),
                                                              (''arguments'', JStr ''{}'')])]])],
                      JObj [(''role'', JStr ''tool''), (''tool_call_id'', JStr ''__proto__''),
                            (''content'', JStr ''sunny'')]])])
        (JBool True))
     = Some (VArr
         [VObj [(''role'', VStr ''model''),
                (''parts'',
                 VArr [VObj [(''thoughtSignature'', VStr ''signature''),
                             (''functionCall'',
                              VObj [(''id'', VStr ''constructor''), (''name'', VStr ''lookup''),
                                    (''args'', VObj [])])],
                       VObj [(''thoughtSignature'', VStr ''signature''),
                             (''functionCall'',
                              VObj [(''id'', VStr ''__proto__''), (''name'', VStr ''lookup''),
                                    (''args'', VObj [])])]])],
          VObj [(''role'', VStr ''user''),
                (''parts'',
                 VArr [VObj [(''functionResponse'',
                              VObj [(''id'', VStr ''constructor''), (''name'', VStr ''lookup''),
                                    (''response'',
                                     VObj [(''result'',
                                            VObj [(''result'',
                                                   VBuiltin (BuiltinFunction ''Object''))])])])],
                       VObj [(''functionResponse'',
                              VObj [(''id'', VStr ''__proto__''),
                                    (''name'', VBuiltin ObjectPrototype),
                                    (''response'',
                                     VObj [(''result'', VBuiltin ObjectPrototype)])])]])]])\<close>
  by (simp add: openaiToGeminiBase_def base_generationConfig_def base_contents_def
        base_tools_def name_of_call_def convert_message_def
        assistant_entries_def function_call_part_of_def function_response_def dict_get_def
        dict_set_def dict_assign_def dict_lookup_def empty_dict_def has_own_def inherited_def
        object_prototype_member_def proto_value_def reaches_setter_def
        wrap_response_def js_or_def js_or_v_def sample_helpers_def parse_table_def
        own_def own_v_def Let_def)

text \<open>
  C8. The converter \<open>openaiToGemini\<close> of \<open>to-openai/openai.js\<close>, registered for the
  Gemini and Gemini-CLI targets, on a request whose only message is a system message:
  the message becomes \<open>systemInstruction\<close> and \<open>contents\<close> stays empty; no user
  entry is emitted.
\<close>

theorem sole_system_message_openai_js:
  "openaiToGemini_openai_js parse name
     (JObj [(''messages'', JArr [JObj [(''role'', JStr ''system''), (''content'', JStr ''Be terse'')]])])
     stream
   = Some (JObj [(''contents'', JArr []),
                 (''generationConfig'', JObj []),
                 (''systemInstruction'',
                  JObj [(''parts'', JArr [JObj [(''text'', JStr ''Be terse'')]])])])"
  by (simp add: openaiToGemini_openai_js_def legacy_message_def own_def Let_def)

text \<open>
  The converters built on \<open>openaiToGeminiBase\<close> do what the claim says: a sole system
  message becomes a user entry of \<open>contents\<close> with no \<open>systemInstruction\<close>, and a
  system message among others is assigned to \<open>systemInstruction\<close>.
\<close>

lemma sole_system_message_base:
  "openaiToGeminiBase h name
     (JObj [(''messages'', JArr [JObj [(''role'', JStr ''system''), (''content'', content)]])])
     stream
   = Some (VObj [(''model'', of_json name),
                 (''contents'',
                  VArr (if length (convertOpenAIContentToParts h content) > 0
                        then [VObj [(''role'', VStr ''user''),
                                    (''parts'', VArr (convertOpenAIContentToParts h content))]]
                        else [])),
                 (''generationConfig'', VObj []),
                 (''safetySettings'', DEFAULT_SAFETY_SETTINGS h)])"
  by (simp add: openaiToGeminiBase_def base_generationConfig_def base_contents_def
        base_tools_def convert_message_def own_def Let_def)

lemma system_message_among_others:
  assumes "opt_prop msg ''role'' = JStr ''system''" and "n > 1"
  shows "convert_message h tcID2Name toolResponses n msg acc =
           Some (VObj [(''role'', VStr ''user''),
                       (''parts'',
                        VArr [VObj [(''text'',
                                     if typeof (opt_prop msg ''content'') = ''string''
                                     then of_json (opt_prop msg ''content'')
                                     else extractTextContent_h h (opt_prop msg ''content''))]])],
                 snd acc)"
proof -
  obtain kvs where "msg = JObj kvs"
    using assms(1) by (cases msg) auto
  with assms show ?thesis
    by (simp add: convert_message_def)
qed

end
